(* ===== verification/Prelude.thy ===== *)
theory Prelude
  imports Complex_Main "HOL-Library.Multiset"
begin

text \<open>
  Shared vocabulary of the KPI engine model (\<open>src/frontend/kpi_engine.py\<close>):
  the types that name Python values (text as code points, dates as
  proleptic-Gregorian ordinals, timestamps as nanoseconds), the columns the
  engine reads and writes, the Python exceptions it can raise, the
  error-propagating map that models \<open>Series.apply\<close> of a raising function,
  and the list lemmas on filters, counts and sums that the KPI proofs share.
\<close>

section \<open>Python values\<close>

text \<open>
  A Python \<open>str\<close> is a sequence of Unicode code points; an Isabelle literal
  \<open>''abc''\<close> is turned into one by \<open>py\<close>.
  A \<open>datetime\<close> at midnight is its ordinal (\<open>date.toordinal\<close>, 0001-01-01 is 1);
  a pandas \<open>Timestamp\<close> is an integer count of nanoseconds since 1970-01-01.
\<close>

type_synonym pystr = "nat list"
type_synonym ordinal = int
type_synonym instant = int

abbreviation py :: "string \<Rightarrow> pystr" where
  "py s \<equiv> map of_char s"

text \<open>Nanoseconds in one day, and the ordinal of the pandas epoch 1970-01-01.\<close>

definition NS_PER_DAY :: int where
  "NS_PER_DAY = 86400 * 1000000000"

definition EPOCH_ORDINAL :: ordinal where
  "EPOCH_ORDINAL = 719163"

definition ordinal_ns :: "ordinal \<Rightarrow> instant" where
  "ordinal_ns d = (d - EPOCH_ORDINAL) * NS_PER_DAY"

section \<open>Columns and exceptions\<close>

text \<open>
  The DataFrame columns the engine touches, named after the source's column
  labels: the five date columns of \<open>cols_data\<close>, the three text columns read
  by the KPIs, and the four columns \<open>preparar_dataframe\<close> adds.
\<close>

datatype column =
    ClosedDate | ActivatedDate | CreatedDate | Prospectar | Analise
  | Iteration | Type | TipoSolucao
  | SprintNum | SprintEnd | SprintStart | SprintEndTol

text \<open>
  The Python exceptions that can escape the engine: \<open>KeyError\<close> from
  \<open>dropna(subset=...)\<close> naming the absent columns, \<open>OverflowError\<close> from
  \<open>datetime\<close> arithmetic, \<open>AttributeError\<close> from \<open>.str\<close> on a non-text
  column, \<open>TypeError\<close> from comparing or subtracting non-timestamp cells,
  \<open>ValueError\<close> from \<open>strptime\<close> on a malformed date string.
\<close>

datatype py_error =
    KeyError "column list"
  | OverflowError
  | AttributeError
  | TypeError
  | ValueError

section \<open>Error propagation\<close>

named_theorems result_simps "equations that evaluate the error-propagating combinators"

fun sbind :: "'e + 'a \<Rightarrow> ('a \<Rightarrow> 'e + 'b) \<Rightarrow> 'e + 'b" where
  "sbind (Inl e) f = Inl e"
| "sbind (Inr a) f = f a"

text \<open>
  \<open>Series.apply f\<close> calls \<open>f\<close> on the rows in order; the first exception
  escapes and no result is built.
\<close>

fun smap :: "('a \<Rightarrow> 'e + 'b) \<Rightarrow> 'a list \<Rightarrow> 'e + 'b list" where
  "smap f [] = Inr []"
| "smap f (x # xs) = sbind (f x) (\<lambda>y. sbind (smap f xs) (\<lambda>ys. Inr (y # ys)))"

declare sbind.simps [result_simps] smap.simps [result_simps]

lemma sbind_eq_Inr [simp]:
  "sbind m f = Inr b \<longleftrightarrow> (\<exists>a. m = Inr a \<and> f a = Inr b)"
  by (cases m) auto

lemma sbind_Inr_right [simp]: "sbind m Inr = m"
  by (cases m) auto

lemma smap_eq_Inr:
  "smap f xs = Inr ys \<longleftrightarrow> list_all2 (\<lambda>x y. f x = Inr y) xs ys"
proof (induction xs arbitrary: ys)
  case Nil
  then show ?case by auto
next
  case (Cons x xs)
  then show ?case by (cases ys) auto
qed

lemma smap_Inr_length: "smap f xs = Inr ys \<Longrightarrow> length ys = length xs"
  by (simp add: smap_eq_Inr list_all2_lengthD)

lemma smap_pure [simp]: "smap (\<lambda>x. Inr (g x)) xs = Inr (map g xs)"
  by (induction xs) auto

lemma smap_Inr_iff_all:
  "(\<exists>ys. smap f xs = Inr ys) \<longleftrightarrow> (\<forall>x\<in>set xs. \<exists>y. f x = Inr y)"
  by (induction xs) auto

lemma smap_cong_ok:
  "(\<And>x. x \<in> set xs \<Longrightarrow> f x = Inr (g x)) \<Longrightarrow> smap f xs = Inr (map g xs)"
  by (induction xs) auto

lemma smap_map: "smap f (map g xs) = smap (\<lambda>x. f (g x)) xs"
  by (induction xs) auto

lemma smap_Inl_error:
  "(\<And>x e. x \<in> set xs \<Longrightarrow> f x = Inl e \<Longrightarrow> e = err) \<Longrightarrow>
   smap f xs = Inl e \<Longrightarrow> e = err"
proof (induction xs)
  case Nil
  then show ?case by simp
next
  case (Cons x xs)
  then show ?case by (cases "f x"; cases "smap f xs") auto
qed

section \<open>Counting and summing filtered rows\<close>

lemma length_filter_conj_compl [simp]:
  "length (filter (\<lambda>x. P x \<and> Q x) xs) + length (filter (\<lambda>x. P x \<and> \<not> Q x) xs) =
   length (filter P xs)"
  by (induction xs) auto

section \<open>More on error propagation\<close>

lemma sbind_eq_Inl: "sbind m f = Inl e \<longleftrightarrow> m = Inl e \<or> (\<exists>a. m = Inr a \<and> f a = Inl e)"
  by (cases m) auto

lemma smap_Inr_elem: "smap f xs = Inr ys \<Longrightarrow> y \<in> set ys \<Longrightarrow> \<exists>x\<in>set xs. f x = Inr y"
proof (induction xs arbitrary: ys)
  case Nil
  then show ?case by simp
next
  case (Cons x xs)
  then show ?case by (cases "f x"; cases "smap f xs") auto
qed

lemma smap_Inr_map:
  assumes "smap f xs = Inr ys" and same: "\<And>x y. f x = Inr y \<Longrightarrow> h y = h x"
  shows "map h ys = map h xs"
  using assms(1)
proof (induction xs arbitrary: ys)
  case Nil
  then show ?case by simp
next
  case (Cons x xs)
  from Cons.prems obtain y0 ys0 where y0: "f x = Inr y0" and ys0: "smap f xs = Inr ys0"
    and ys: "ys = y0 # ys0"
    by (cases "f x"; cases "smap f xs") auto
  have "h y0 = h x" using y0 by (rule same)
  with Cons.IH [OF ys0] ys show ?case by simp
qed

lemma smap_Inl_single:
  assumes "\<And>x e. f x = Inl e \<Longrightarrow> e = err"
  shows "smap f xs = Inl e \<longleftrightarrow> e = err \<and> (\<exists>x\<in>set xs. \<exists>e'. f x = Inl e')"
proof (induction xs)
  case Nil
  then show ?case by simp
next
  case (Cons x xs)
  show ?case
  proof (cases "f x")
    case (Inl e')
    then show ?thesis using assms [OF Inl] by auto
  next
    case (Inr y)
    with Cons.IH show ?thesis by (cases "smap f xs") auto
  qed
qed

text \<open>Two \<open>apply\<close> passes that can raise only one exception give the
  result of one pass that does both calls row by row.\<close>

lemma two_passes_one_pass:
  assumes f_err: "\<And>x e. f x = Inl e \<Longrightarrow> e = err"
    and g_err: "\<And>x e. g x = Inl e \<Longrightarrow> e = err"
  shows "sbind (smap f xs) (\<lambda>es. sbind (smap g xs) (\<lambda>ss. Inr (map h (zip xs (zip es ss))))) =
         smap (\<lambda>x. sbind (f x) (\<lambda>e. sbind (g x) (\<lambda>s. Inr (h (x, e, s))))) xs"
    (is "?L xs = ?R xs")
proof (induction xs)
  case Nil
  then show ?case by simp
next
  case (Cons x xs)
  have sf: "e = err" if "smap f xs = Inl e" for e
    using smap_Inl_error [of xs f err e] f_err that by blast
  have sg: "e = err" if "smap g xs = Inl e" for e
    using smap_Inl_error [of xs g err e] g_err that by blast
  show ?case
  proof (cases "f x")
    case (Inl e)
    then show ?thesis using f_err [OF Inl] by simp
  next
    case (Inr a)
    show ?thesis
    proof (cases "g x")
      case (Inl e)
      have "e = err" using g_err [OF Inl] .
      with Inl \<open>f x = Inr a\<close> show ?thesis
        by (cases "smap f xs") (simp_all add: sf)
    next
      case (Inr b)
      with \<open>f x = Inr a\<close> Cons.IH [symmetric] show ?thesis
        by (cases "smap f xs"; cases "smap g xs") (simp_all add: sf sg)
    qed
  qed
qed

section \<open>Lists, sums and multisets\<close>

lemma takeWhile_dropWhile_prefix:
  assumes "\<forall>y\<in>set ys. P y" "xs = [] \<or> \<not> P (hd xs)"
  shows "takeWhile P (ys @ xs) = ys \<and> dropWhile P (ys @ xs) = xs"
  using assms by (cases xs) (simp_all add: takeWhile_append2 dropWhile_append2)

lemma sum_list_divide:
  fixes f :: "'a \<Rightarrow> 'b::field"
  shows "(\<Sum>x\<leftarrow>xs. f x / c) = (\<Sum>x\<leftarrow>xs. f x) / c"
  by (induction xs) (simp_all add: add_divide_distrib)

lemma sum_mset_image_mset: "sum_mset (image_mset f (mset xs)) = sum_list (map f xs)"
  by (simp only: mset_map [symmetric] sum_mset_sum_list)

lemma size_filter_mset_mset [simp]: "size (filter_mset P (mset xs)) = length (filter P xs)"
  by (simp flip: mset_filter)

end
