(* ===== verification/PyStr.thy ===== *)
theory PyStr
  imports Prelude
begin

text \<open>
  The Python \<open>str\<close> operations the engine applies to cell text:
  \<open>str.strip()\<close> and \<open>str.title()\<close> (line 71), \<open>str(int)\<close> in the KPI
  messages (lines 84, 105, 127) and the regex search
  \<open>str.extract(r'Sprint (\d+)')\<close> followed by \<open>astype(float)\<close> (line 42).
  Text is a list of code points. White space is CPython's \<open>str.isspace\<close>
  set, exactly. Case is CPython's Unicode case data restricted to the
  alphabet of Latin-1 (code points below 256) and the three code points its
  case mappings reach (376 \<open>Y with diaeresis\<close>, 924 and 956, Greek capital and
  small mu); on that alphabet the model is exact, and code points outside
  it are treated as uncased. \<open>\d\<close> on that alphabet is \<open>[0-9]\<close>.
\<close>

section \<open>White space and \<open>str.strip\<close>\<close>

definition WHITESPACE :: "nat list" where
  "WHITESPACE =
     [9, 10, 11, 12, 13, 28, 29, 30, 31, 32, 133, 160, 5760,
      8192, 8193, 8194, 8195, 8196, 8197, 8198, 8199, 8200, 8201, 8202,
      8232, 8233, 8239, 8287, 12288]"

definition py_isspace :: "nat \<Rightarrow> bool" where
  "py_isspace c \<longleftrightarrow> c \<in> set WHITESPACE"

definition py_strip :: "pystr \<Rightarrow> pystr" where
  "py_strip s = rev (dropWhile py_isspace (rev (dropWhile py_isspace s)))"

section \<open>Case and \<open>str.title\<close>\<close>

definition ALPHABET :: "nat \<Rightarrow> bool" where
  "ALPHABET c \<longleftrightarrow> c < 256 \<or> c = 376 \<or> c = 924 \<or> c = 956"

text \<open>The two letter ranges whose case mapping is a shift by 32: the capitals
  \<open>A-Z\<close> and 192--222 without the multiplication sign 215, and their small letters.\<close>

definition lowers_by_shift :: "nat \<Rightarrow> bool" where
  "lowers_by_shift c \<longleftrightarrow> (65 \<le> c \<and> c \<le> 90) \<or> (192 \<le> c \<and> c \<le> 222 \<and> c \<noteq> 215)"

definition titles_by_shift :: "nat \<Rightarrow> bool" where
  "titles_by_shift c \<longleftrightarrow> (97 \<le> c \<and> c \<le> 122) \<or> (224 \<le> c \<and> c \<le> 254 \<and> c \<noteq> 247)"

definition is_upper :: "nat \<Rightarrow> bool" where
  "is_upper c \<longleftrightarrow> lowers_by_shift c \<or> c = 376 \<or> c = 924"

definition is_lower :: "nat \<Rightarrow> bool" where
  "is_lower c \<longleftrightarrow> titles_by_shift c \<or> c = 223 \<or> c = 255
     \<or> c = 170 \<or> c = 181 \<or> c = 186 \<or> c = 956"

definition is_cased :: "nat \<Rightarrow> bool" where
  "is_cased c \<longleftrightarrow> is_upper c \<or> is_lower c"

text \<open>\<open>_PyUnicode_ToLowerFull\<close> and \<open>_PyUnicode_ToTitleFull\<close> on the alphabet:
  sharp s (223) titles to \<open>Ss\<close>, micro sign and small mu to capital mu,
  \<open>y\<close> with diaeresis to its capital at 376.\<close>

definition to_lower :: "nat \<Rightarrow> nat" where
  "to_lower c =
     (if lowers_by_shift c then c + 32
      else if c = 376 then 255 else if c = 924 then 956 else c)"

definition to_title :: "nat \<Rightarrow> pystr" where
  "to_title c =
     (if titles_by_shift c then [c - 32]
      else if c = 223 then [83, 115]
      else if c = 181 \<or> c = 956 then [924]
      else if c = 255 then [376]
      else [c])"

text \<open>CPython's \<open>do_title\<close>: a character after a cased character is lowered,
  any other is title-cased; the flag follows the input character.\<close>

fun title_from :: "bool \<Rightarrow> pystr \<Rightarrow> pystr" where
  "title_from p [] = []"
| "title_from p (c # cs) = (if p then [to_lower c] else to_title c) @ title_from (is_cased c) cs"

definition py_title :: "pystr \<Rightarrow> pystr" where
  "py_title s = title_from False s"

section \<open>Decimal digits: \<open>str(int)\<close> and reading a digit run\<close>

definition is_digit :: "nat \<Rightarrow> bool" where
  "is_digit c \<longleftrightarrow> 48 \<le> c \<and> c \<le> 57"

fun show_nat :: "nat \<Rightarrow> pystr" where
  "show_nat n = (if n < 10 then [48 + n] else show_nat (n div 10) @ [48 + n mod 10])"

declare show_nat.simps [simp del]

definition read_nat :: "pystr \<Rightarrow> nat" where
  "read_nat s = foldl (\<lambda>acc c. 10 * acc + (c - 48)) 0 s"

section \<open>\<open>str.extract(r'Sprint (\d+)')\<close>\<close>

text \<open>A match at the current position: the literal \<open>Sprint \<close> and a greedy
  non-empty digit run, read as a number (\<open>astype(float)\<close>).\<close>

definition SPRINT_TOKEN :: pystr where
  "SPRINT_TOKEN = py ''Sprint ''"

definition sprint_match :: "pystr \<Rightarrow> nat option" where
  "sprint_match s =
     (let ds = takeWhile is_digit (drop (length SPRINT_TOKEN) s)
      in if take (length SPRINT_TOKEN) s = SPRINT_TOKEN \<and> ds \<noteq> [] then Some (read_nat ds)
         else None)"

text \<open>\<open>re.search\<close>: the first position, from the left, where the pattern matches.\<close>

fun extract_sprint :: "pystr \<Rightarrow> nat option" where
  "extract_sprint [] = None"
| "extract_sprint (c # cs) =
     (case sprint_match (c # cs) of Some n \<Rightarrow> Some n | None \<Rightarrow> extract_sprint cs)"

section \<open>Lemmas\<close>

subsection \<open>\<open>strip\<close>\<close>

lemma rev_dropWhile_rev_hd:
  assumes "xs \<noteq> []" and "\<not> P (hd xs)"
  shows "rev (dropWhile P (rev xs)) \<noteq> [] \<and> hd (rev (dropWhile P (rev xs))) = hd xs"
  using assms by (cases xs) (auto simp: dropWhile_append)

lemma py_strip_ends:
  assumes "py_strip s \<noteq> []"
  shows "\<not> py_isspace (hd (py_strip s)) \<and> \<not> py_isspace (last (py_strip s))"
proof -
  let ?u = "dropWhile py_isspace s"
  have t: "py_strip s = rev (dropWhile py_isspace (rev ?u))"
    by (simp add: py_strip_def)
  with assms have u: "?u \<noteq> []"
    by (metis dropWhile.simps(1) rev.simps(1))
  then have hu: "\<not> py_isspace (hd ?u)" by (rule hd_dropWhile)
  have "hd (py_strip s) = hd ?u"
    using rev_dropWhile_rev_hd [where P = py_isspace, OF u hu] t by simp
  moreover have "\<not> py_isspace (hd (dropWhile py_isspace (rev ?u)))"
    using assms t by (intro hd_dropWhile) auto
  ultimately show ?thesis
    using hu t by (simp add: last_rev)
qed

lemma py_strip_affixes:
  "\<exists>a b. s = a @ py_strip s @ b \<and> (\<forall>c\<in>set a. py_isspace c) \<and> (\<forall>c\<in>set b. py_isspace c)"
proof -
  let ?u = "dropWhile py_isspace s"
  let ?b = "rev (takeWhile py_isspace (rev ?u))"
  have "rev (rev ?u) = rev (takeWhile py_isspace (rev ?u) @ dropWhile py_isspace (rev ?u))"
    by (simp only: takeWhile_dropWhile_id)
  then have "?u = py_strip s @ ?b"
    by (simp only: rev_rev_ident rev_append py_strip_def)
  then have "s = takeWhile py_isspace s @ py_strip s @ ?b"
    by (metis takeWhile_dropWhile_id)
  moreover have "\<forall>c\<in>set (takeWhile py_isspace s). py_isspace c"
    by (auto dest: set_takeWhileD)
  moreover have "\<forall>c\<in>set ?b. py_isspace c"
    by (auto dest: set_takeWhileD)
  ultimately show ?thesis by blast
qed

lemma py_strip_idem: "py_strip (py_strip s) = py_strip s"
proof (cases "py_strip s = []")
  case True
  have "py_strip [] = []" by (simp add: py_strip_def)
  with True show ?thesis by simp
next
  case False
  then have ends: "\<not> py_isspace (hd (py_strip s))" "\<not> py_isspace (last (py_strip s))"
    using py_strip_ends by blast+
  have "dropWhile py_isspace (py_strip s) = py_strip s"
    using ends(1) by (simp add: dropWhile_eq_self_iff)
  moreover have "dropWhile py_isspace (rev (py_strip s)) = rev (py_strip s)"
    using ends(2) False by (simp add: dropWhile_eq_self_iff hd_rev)
  ultimately show ?thesis by (simp add: py_strip_def)
qed

subsection \<open>\<open>title\<close>\<close>

lemmas case_defs = is_cased_def is_upper_def is_lower_def to_lower_def to_title_def

lemma shift_ranges:
  "titles_by_shift c \<Longrightarrow> lowers_by_shift (c - 32)"
  "lowers_by_shift c \<Longrightarrow> titles_by_shift (c + 32)"
  "lowers_by_shift c \<Longrightarrow> \<not> titles_by_shift c"
  "titles_by_shift c \<Longrightarrow> \<not> lowers_by_shift c"
  by (auto simp: titles_by_shift_def lowers_by_shift_def)

lemma shift_excludes:
  "titles_by_shift c \<Longrightarrow> c \<noteq> 223 \<and> c \<noteq> 255 \<and> c \<noteq> 181 \<and> c \<noteq> 956 \<and> c \<noteq> 376 \<and> c \<noteq> 924"
  "lowers_by_shift c \<Longrightarrow> c \<noteq> 223 \<and> c \<noteq> 255 \<and> c \<noteq> 181 \<and> c \<noteq> 956 \<and> c \<noteq> 376 \<and> c \<noteq> 924"
  by (auto simp: titles_by_shift_def lowers_by_shift_def)

lemma shift_consts:
  "lowers_by_shift 83" "\<not> titles_by_shift 83" "titles_by_shift 115" "\<not> lowers_by_shift 115"
  "\<not> lowers_by_shift 924" "\<not> titles_by_shift 924" "\<not> lowers_by_shift 376" "\<not> titles_by_shift 376"
  "\<not> lowers_by_shift 255" "\<not> titles_by_shift 255" "\<not> lowers_by_shift 956" "\<not> titles_by_shift 956"
  "\<not> lowers_by_shift 223" "\<not> titles_by_shift 223" "\<not> lowers_by_shift 181" "\<not> titles_by_shift 181"
  by (simp_all add: titles_by_shift_def lowers_by_shift_def)

lemma to_lower_shift:
  assumes "lowers_by_shift c"
  shows "to_lower c = c + 32 \<and> to_lower (c + 32) = c + 32 \<and> to_title (c + 32) = [c] \<and> to_title c = [c]"
proof -
  have t: "titles_by_shift (c + 32)" using assms by (rule shift_ranges(2))
  have "\<not> lowers_by_shift (c + 32)" using t by (rule shift_ranges(4))
  moreover have "\<not> titles_by_shift c" using assms by (rule shift_ranges(3))
  ultimately show ?thesis
    using t assms shift_excludes(1) [OF t] shift_excludes(2) [OF assms]
    by (simp add: to_lower_def to_title_def)
qed

lemma to_lower_idem [simp]: "to_lower (to_lower c) = to_lower c"
proof (cases "lowers_by_shift c")
  case True
  then show ?thesis by (simp add: to_lower_shift)
next
  case False
  then show ?thesis by (simp add: to_lower_def shift_consts)
qed

lemma to_title_to_lower [simp]: "to_title (to_lower c) = to_title c"
proof (cases "lowers_by_shift c")
  case True
  then show ?thesis by (simp add: to_lower_shift)
next
  case False
  then show ?thesis by (simp add: to_lower_def to_title_def shift_consts)
qed

lemma is_cased_to_lower [simp]: "is_cased (to_lower c) = is_cased c"
proof (cases "lowers_by_shift c")
  case True
  then have "to_lower c = c + 32" "titles_by_shift (c + 32)"
    by (simp_all add: to_lower_shift shift_ranges(2))
  with True show ?thesis by (simp add: is_cased_def is_upper_def is_lower_def)
next
  case False
  then show ?thesis by (auto simp: to_lower_def is_cased_def is_upper_def is_lower_def shift_consts)
qed

lemma to_title_shift:
  assumes "titles_by_shift c"
  shows "to_title c = [c - 32] \<and> to_title (c - 32) = [c - 32] \<and> is_cased (c - 32) \<and> is_cased c"
proof -
  have l: "lowers_by_shift (c - 32)" using assms by (rule shift_ranges(1))
  have "to_title c = [c - 32]" using assms by (simp add: to_title_def)
  moreover have "to_title (c - 32) = [c - 32]" using l by (simp add: to_lower_shift)
  ultimately show ?thesis
    using l assms by (simp add: is_cased_def is_upper_def is_lower_def)
qed

lemma to_title_other:
  assumes "\<not> titles_by_shift c" and "c \<noteq> 223" and "c \<noteq> 181" and "c \<noteq> 956" and "c \<noteq> 255"
  shows "to_title c = [c]"
  using assms by (simp add: to_title_def)

lemma to_title_cases:
  obtains (shift) "titles_by_shift c" | (sharp_s) "c = 223" | (mu) "c = 181 \<or> c = 956"
    | (y) "c = 255" | (same) "to_title c = [c]"
  using to_title_other by blast

lemma title_from_to_title [simp]: "title_from False (to_title c) = to_title c"
proof (cases c rule: to_title_cases)
  case shift
  then show ?thesis by (simp add: to_title_shift)
next
  case same
  then show ?thesis by simp
qed (auto simp: case_defs shift_consts)

lemma to_title_last:
  "to_title c \<noteq> [] \<and> is_cased (last (to_title c)) = is_cased c"
proof (cases c rule: to_title_cases)
  case shift
  then show ?thesis by (simp add: to_title_shift)
next
  case same
  then show ?thesis by simp
qed (auto simp: case_defs shift_consts)

lemma title_from_map_lower: "title_from p (map to_lower s) = title_from p s"
  by (induction s arbitrary: p) simp_all

lemma title_from_append:
  "title_from p (xs @ ys) =
     title_from p xs @ title_from (if xs = [] then p else is_cased (last xs)) ys"
  by (induction xs arbitrary: p) auto

lemma title_from_idem: "title_from p (title_from p s) = title_from p s"
proof (induction s arbitrary: p)
  case Nil
  then show ?case by simp
next
  case (Cons c cs)
  show ?case
  proof (cases p)
    case True
    with Cons.IH show ?thesis by (simp add: title_from_append)
  next
    case False
    with Cons.IH to_title_last [of c] show ?thesis by (simp add: title_from_append)
  qed
qed

subsection \<open>Decimal digits\<close>

lemma read_nat_snoc: "read_nat (xs @ [c]) = 10 * read_nat xs + (c - 48)"
  by (simp add: read_nat_def)

lemma read_show_nat: "read_nat (show_nat n) = n"
proof (induction n rule: show_nat.induct)
  case (1 n)
  show ?case
  proof (cases "n < 10")
    case True
    then show ?thesis by (simp add: show_nat.simps [of n] read_nat_def)
  next
    case False
    with "1.IH" show ?thesis by (simp add: show_nat.simps [of n] read_nat_snoc)
  qed
qed

lemma show_nat_digits: "show_nat n \<noteq> [] \<and> (\<forall>c\<in>set (show_nat n). is_digit c)"
proof (induction n rule: show_nat.induct)
  case (1 n)
  then show ?case by (auto simp: show_nat.simps [of n] is_digit_def)
qed

subsection \<open>The sprint pattern\<close>

lemma sprint_match_show:
  assumes "post = [] \<or> \<not> is_digit (hd post)"
  shows "sprint_match (SPRINT_TOKEN @ show_nat n @ post) = Some n"
proof -
  have "takeWhile is_digit (show_nat n @ post) = show_nat n"
    using show_nat_digits [of n] assms by (auto simp: takeWhile_eq_Nil_iff)
  then show ?thesis
    using show_nat_digits [of n] by (simp add: sprint_match_def read_show_nat)
qed

lemma extract_sprint_first:
  "extract_sprint s = Some n \<longleftrightarrow>
     (\<exists>i<length s. sprint_match (drop i s) = Some n \<and> (\<forall>j<i. sprint_match (drop j s) = None))"
proof (induction s)
  case Nil
  then show ?case by simp
next
  case (Cons c cs)
  show ?case
  proof (cases "sprint_match (c # cs)")
    case None
    with Cons.IH show ?thesis
      by (simp add: Ex_less_Suc2 All_less_Suc2)
  next
    case (Some m)
    then show ?thesis
      by (auto simp: Ex_less_Suc2 All_less_Suc2)
  qed
qed

lemma sprint_match_literal:
  "sprint_match t =
     (if take 7 t = py ''Sprint '' \<and> takeWhile is_digit (drop 7 t) \<noteq> []
      then Some (read_nat (takeWhile is_digit (drop 7 t))) else None)"
proof -
  have "length SPRINT_TOKEN = 7" by (simp add: SPRINT_TOKEN_def)
  then show ?thesis unfolding sprint_match_def Let_def by (simp only: SPRINT_TOKEN_def)
qed

lemma sprint_match_None_iff:
  "sprint_match t = None \<longleftrightarrow>
   \<not> (take 7 t = py ''Sprint '' \<and> 7 < length t \<and> is_digit (t ! 7))"
proof -
  have "takeWhile is_digit (drop 7 t) \<noteq> [] \<longleftrightarrow> 7 < length t \<and> is_digit (t ! 7)"
    by (cases "7 < length t") (simp_all add: takeWhile_eq_Nil_iff hd_drop_conv_nth)
  then show ?thesis by (simp only: sprint_match_literal) auto
qed

lemma sprint_match_Some_split:
  assumes "sprint_match t = Some n"
  shows "\<exists>ds post. t = py ''Sprint '' @ ds @ post \<and> ds \<noteq> [] \<and> list_all is_digit ds \<and>
           (post = [] \<or> \<not> is_digit (hd post)) \<and> n = read_nat ds"
proof -
  let ?r = "drop 7 t"
  have tok: "take 7 t = py ''Sprint ''" and ds: "takeWhile is_digit ?r \<noteq> []"
    and n: "n = read_nat (takeWhile is_digit ?r)"
    using assms unfolding sprint_match_literal by (auto split: if_splits)
  have "t = take 7 t @ takeWhile is_digit ?r @ dropWhile is_digit ?r"
    by simp
  then have "t = py ''Sprint '' @ takeWhile is_digit ?r @ dropWhile is_digit ?r"
    by (simp only: tok)
  moreover have "dropWhile is_digit ?r = [] \<or> \<not> is_digit (hd (dropWhile is_digit ?r))"
    using hd_dropWhile by blast
  moreover have "list_all is_digit (takeWhile is_digit ?r)"
    by (auto simp: list_all_iff dest: set_takeWhileD)
  ultimately show ?thesis using ds n by blast
qed

lemma to_lower_isspace: "py_isspace (to_lower c) = py_isspace c"
  by (auto simp: to_lower_def py_isspace_def WHITESPACE_def lowers_by_shift_def)

lemma py_strip_map_lower: "py_strip (map to_lower s) = map to_lower (py_strip s)"
  by (simp add: py_strip_def dropWhile_map comp_def to_lower_isspace rev_map)

lemma dropWhile_all_prefix: "list_all P a \<Longrightarrow> dropWhile P (a @ x) = dropWhile P x"
  by (induction a) simp_all

lemma py_strip_pad:
  assumes "list_all py_isspace a" "list_all py_isspace b"
  shows "py_strip (a @ s @ b) = py_strip s"
proof (cases "\<exists>c\<in>set s. \<not> py_isspace c")
  case True
  then obtain c where "c \<in> set s" "\<not> py_isspace c" by blast
  then have "dropWhile py_isspace (s @ b) = dropWhile py_isspace s @ b"
    by (rule dropWhile_append1)
  moreover have "list_all py_isspace (rev b)" using assms(2) by simp
  ultimately show ?thesis
    using assms(1) by (simp add: py_strip_def dropWhile_all_prefix)
next
  case False
  then have s: "\<forall>c\<in>set s. py_isspace c" by blast
  have d1: "dropWhile py_isspace (s @ b) = []"
    using s assms(2) by (simp add: list_all_iff)
  have d2: "dropWhile py_isspace s = []"
    using s by simp
  have d3: "dropWhile py_isspace (a @ s @ b) = []"
    using dropWhile_all_prefix [OF assms(1), of "s @ b"] d1 by simp
  show ?thesis unfolding py_strip_def d3 d2 by simp
qed

section \<open>The string model against Python\<close>

text \<open>Checks of the model of the library functions: they are not properties
  of the program but show that the model behaves as CPython documents.\<close>

text \<open>\<open>str.title()\<close> ignores the case of its input: lowering every
  character first gives the same title-cased text.\<close>

lemma py_title_ignores_case: "py_title (map to_lower s) = py_title s"
  by (simp add: py_title_def title_from_map_lower)

text \<open>\<open>str.title()\<close> is idempotent, also through the expanding
  mappings (sharp s to \<open>Ss\<close>).\<close>

lemma py_title_idempotent: "py_title (py_title s) = py_title s"
  by (simp add: py_title_def title_from_idem)

text \<open>\<open>str.strip()\<close> removes exactly a white-space prefix and a
  white-space suffix, and leaves no white space at either end.\<close>

lemma py_strip_spec:
  "\<exists>a b. s = a @ py_strip s @ b \<and> list_all py_isspace a \<and> list_all py_isspace b \<and>
     takeWhile py_isspace (py_strip s) = [] \<and> takeWhile py_isspace (rev (py_strip s)) = []"
proof -
  have ends: "takeWhile py_isspace (py_strip s) = [] \<and> takeWhile py_isspace (rev (py_strip s)) = []"
  proof (cases "py_strip s = []")
    case True
    then show ?thesis by simp
  next
    case False
    then show ?thesis
      using py_strip_ends [of s] by (simp add: takeWhile_eq_Nil_iff hd_rev)
  qed
  then show ?thesis
    using py_strip_affixes [of s] by (auto simp: list_all_iff)
qed

text \<open>\<open>str(n)\<close> is a non-empty run of decimal digits that reads back as \<open>n\<close>.\<close>

lemma show_nat_roundtrip:
  "read_nat (show_nat n) = n \<and> show_nat n \<noteq> [] \<and> list_all is_digit (show_nat n)"
  using read_show_nat [of n] show_nat_digits [of n] by (simp add: list_all_iff)

text \<open>C26: \<open>str.extract(r'Sprint (\d+)')\<close> is sound: a result \<open>n\<close> comes
  from the literal text \<open>Sprint \<close> followed by a non-empty run of decimal
  digits that is not followed by another digit, read as the decimal number
  \<open>n\<close>, and no earlier position of the label starts \<open>Sprint \<close> followed by a
  digit.\<close>

theorem extract_sprint_sound:
  assumes "extract_sprint s = Some n"
  shows "\<exists>pre ds post. s = pre @ py ''Sprint '' @ ds @ post \<and> ds \<noteq> [] \<and> list_all is_digit ds \<and>
           (post = [] \<or> \<not> is_digit (hd post)) \<and> n = read_nat ds \<and>
           list_all (\<lambda>j. \<not> (take 7 (drop j s) = py ''Sprint '' \<and> j + 7 < length s \<and> is_digit (s ! (j + 7))))
             [0..<length pre]"
proof -
  obtain i where i: "i < length s" and m: "sprint_match (drop i s) = Some n"
    and before: "\<forall>j<i. sprint_match (drop j s) = None"
    using assms extract_sprint_first [of s n] by blast
  obtain ds post where split: "drop i s = py ''Sprint '' @ ds @ post" and rest: "ds \<noteq> []"
    "list_all is_digit ds" "post = [] \<or> \<not> is_digit (hd post)" "n = read_nat ds"
    using sprint_match_Some_split [OF m] by blast
  have s: "s = take i s @ py ''Sprint '' @ ds @ post"
    using split by (metis append_take_drop_id)
  have lall: "list_all (\<lambda>j. \<not> (take 7 (drop j s) = py ''Sprint '' \<and> j + 7 < length s \<and> is_digit (s ! (j + 7))))
          [0..<length (take i s)]"
  proof (unfold list_all_iff, intro ballI)
    fix j assume "j \<in> set [0..<length (take i s)]"
    then have j: "j < i" using i by simp
    then have "sprint_match (drop j s) = None" using before by blast
    then have no: "\<not> (take 7 (drop j s) = py ''Sprint '' \<and> 7 < length (drop j s) \<and> is_digit (drop j s ! 7))"
      unfolding sprint_match_None_iff .
    have len: "7 < length (drop j s) \<longleftrightarrow> j + 7 < length s" by auto
    have nth: "drop j s ! 7 = s ! (j + 7)" if "j + 7 < length s"
      using that by (simp add: nth_drop)
    show "\<not> (take 7 (drop j s) = py ''Sprint '' \<and> j + 7 < length s \<and> is_digit (s ! (j + 7)))"
    proof
      assume A: "take 7 (drop j s) = py ''Sprint '' \<and> j + 7 < length s \<and> is_digit (s ! (j + 7))"
      then have "7 < length (drop j s) \<and> is_digit (drop j s ! 7)" using len nth by simp
      with A no show False by blast
    qed
  qed
  show ?thesis
  proof (rule exI [where x = "take i s"], rule exI [where x = ds], rule exI [where x = post])
    show "s = take i s @ py ''Sprint '' @ ds @ post \<and> ds \<noteq> [] \<and> list_all is_digit ds \<and>
      (post = [] \<or> \<not> is_digit (hd post)) \<and> n = read_nat ds \<and>
      list_all (\<lambda>j. \<not> (take 7 (drop j s) = py ''Sprint '' \<and> j + 7 < length s \<and> is_digit (s ! (j + 7))))
        [0..<length (take i s)]"
      using s rest lall by (intro conjI)
  qed
qed

text \<open>C27: a label that writes sprint \<open>n\<close> as \<open>Sprint <n>\<close>, not followed by a
  digit and not preceded by another match, yields \<open>n\<close>.\<close>

theorem sprint_label_roundtrip:
  assumes "post = [] \<or> \<not> is_digit (hd post)"
    and "\<forall>j<length pre. sprint_match (drop j (pre @ SPRINT_TOKEN @ show_nat n @ post)) = None"
  shows "extract_sprint (pre @ SPRINT_TOKEN @ show_nat n @ post) = Some n"
proof -
  let ?s = "pre @ SPRINT_TOKEN @ show_nat n @ post"
  have "sprint_match (drop (length pre) ?s) = Some n"
    using sprint_match_show [OF assms(1)] by simp
  moreover have "length pre < length ?s"
    by (simp add: SPRINT_TOKEN_def)
  ultimately show ?thesis
    using assms(2) extract_sprint_first [of ?s n] by blast
qed

subsection \<open>Witnesses\<close>

theorem extract_sprint_sound_witness:
  "extract_sprint (py ''Sprint Sprint 7'') = Some 7 \<and>
   (\<exists>pre ds post. py ''Sprint Sprint 7'' = pre @ py ''Sprint '' @ ds @ post \<and> ds \<noteq> [] \<and>
      list_all is_digit ds \<and> (post = [] \<or> \<not> is_digit (hd post)) \<and> 7 = read_nat ds \<and>
      list_all (\<lambda>j. \<not> (take 7 (drop j (py ''Sprint Sprint 7'')) = py ''Sprint '' \<and>
         j + 7 < length (py ''Sprint Sprint 7'') \<and> is_digit (py ''Sprint Sprint 7'' ! (j + 7))))
        [0..<length pre])"
proof -
  have e: "extract_sprint (py ''Sprint Sprint 7'') = Some 7"
    by (simp add: sprint_match_def SPRINT_TOKEN_def is_digit_def read_nat_def)
  show ?thesis by (rule conjI [OF e extract_sprint_sound [OF e]])
qed

theorem sprint_label_roundtrip_witness:
  "extract_sprint (py ''Area/'' @ SPRINT_TOKEN @ show_nat 34 @ py '' x'') = Some 34"
proof -
  have post: "py '' x'' = [] \<or> \<not> is_digit (hd (py '' x''))"
    by (simp add: is_digit_def)
  have pre: "\<forall>j<length (py ''Area/'').
      sprint_match (drop j (py ''Area/'' @ SPRINT_TOKEN @ show_nat 34 @ py '' x'')) = None"
    by (simp add: All_less_Suc2 sprint_match_def SPRINT_TOKEN_def numeral_eq_Suc)
  show ?thesis by (rule sprint_label_roundtrip [OF post pre])
qed

end
