(* ===== verification/Calendar.thy ===== *)
theory Calendar
  imports PyStr
begin

text \<open>
  The sprint calendar of \<open>src/frontend/kpi_engine.py\<close> (lines 9--28):
  the constant table \<open>SPRINT_CALENDAR\<close>, \<open>get_limit_date\<close> (end date of a
  sprint: the table's date, else 21 days per sprint back from sprint 36 on
  2026-02-13) and \<open>get_start_date\<close> (the day after the previous sprint's end).
  Dates are ordinals as \<open>date.toordinal\<close> computes them; the library calls
  the code makes (\<open>datetime.strptime\<close>, \<open>datetime\<close>/\<open>timedelta\<close> arithmetic)
  are modelled with the range checks and exceptions of CPython's
  \<open>datetime\<close> module.
\<close>

section \<open>Proleptic Gregorian ordinals\<close>

text \<open>CPython's \<open>_is_leap\<close>, \<open>_days_in_month\<close>, \<open>_days_before_year\<close>,
  \<open>_days_before_month\<close> and \<open>_ymd2ord\<close>.\<close>

definition is_leap :: "int \<Rightarrow> bool" where
  "is_leap y \<longleftrightarrow> y mod 4 = 0 \<and> (y mod 100 \<noteq> 0 \<or> y mod 400 = 0)"

definition DAYS_IN_MONTH :: "int list" where
  "DAYS_IN_MONTH = [31, 28, 31, 30, 31, 30, 31, 31, 30, 31, 30, 31]"

definition DAYS_BEFORE_MONTH :: "int list" where
  "DAYS_BEFORE_MONTH = [0, 31, 59, 90, 120, 151, 181, 212, 243, 273, 304, 334]"

definition days_in_month :: "int \<Rightarrow> int \<Rightarrow> int" where
  "days_in_month y m =
     (if m = 2 \<and> is_leap y then 29 else DAYS_IN_MONTH ! nat (m - 1))"

definition days_before_year :: "int \<Rightarrow> int" where
  "days_before_year y =
     (y - 1) * 365 + (y - 1) div 4 - (y - 1) div 100 + (y - 1) div 400"

definition days_before_month :: "int \<Rightarrow> int \<Rightarrow> int" where
  "days_before_month y m =
     DAYS_BEFORE_MONTH ! nat (m - 1) + (if 2 < m \<and> is_leap y then 1 else 0)"

definition ymd2ord :: "int \<Rightarrow> int \<Rightarrow> int \<Rightarrow> ordinal" where
  "ymd2ord y m d = days_before_year y + days_before_month y m + d"

definition valid_ymd :: "int \<Rightarrow> int \<Rightarrow> int \<Rightarrow> bool" where
  "valid_ymd y m d \<longleftrightarrow>
     1 \<le> y \<and> y \<le> 9999 \<and> 1 \<le> m \<and> m \<le> 12 \<and> 1 \<le> d \<and> d \<le> days_in_month y m"

text \<open>\<open>date.min\<close> and \<open>date.max\<close> as ordinals; \<open>timedelta\<close>'s day limit.\<close>

definition MIN_ORDINAL :: ordinal where
  "MIN_ORDINAL = 1"

definition MAX_ORDINAL :: ordinal where
  "MAX_ORDINAL = 3652059"

definition MAX_DELTA_DAYS :: int where
  "MAX_DELTA_DAYS = 999999999"

section \<open>\<open>strptime(s, "%Y-%m-%d")\<close>\<close>

text \<open>
  The directive regexes are \<open>\d\d\d\d\<close> for the year, \<open>1[0-2]|0[1-9]|[1-9]\<close>
  for the month and \<open>3[01]|[12]\d|0[1-9]|[1-9]| [1-9]\<close> for the day; the
  match must cover the whole string, and the date must exist. The model
  covers the ten-character shape \<open>YYYY-MM-DD\<close> (with the day also
  \<open>" d"\<close>), the shape of every string in the table; shorter strings that
  \<open>strptime\<close> accepts (\<open>2025-8-8\<close>) are reported as \<open>ValueError\<close>.
\<close>

definition digit_value :: "nat \<Rightarrow> int" where
  "digit_value c = int c - 48"

definition field2 :: "nat \<Rightarrow> nat \<Rightarrow> int" where
  "field2 a b = 10 * digit_value a + digit_value b"

definition day_field_ok :: "nat \<Rightarrow> nat \<Rightarrow> bool" where
  "day_field_ok a b \<longleftrightarrow> (is_digit a \<or> (a = 32 \<and> 49 \<le> b)) \<and> is_digit b"

definition day_field :: "nat \<Rightarrow> nat \<Rightarrow> int" where
  "day_field a b = (if a = 32 then digit_value b else field2 a b)"

fun strptime_ymd :: "pystr \<Rightarrow> py_error + ordinal" where
  "strptime_ymd [y1, y2, y3, y4, h1, m1, m2, h2, d1, d2] =
     (if list_all is_digit [y1, y2, y3, y4, m1, m2] \<and> h1 = 45 \<and> h2 = 45
         \<and> day_field_ok d1 d2
      then (let y = 100 * field2 y1 y2 + field2 y3 y4; m = field2 m1 m2;
                d = day_field d1 d2
            in if valid_ymd y m d then Inr (ymd2ord y m d) else Inl ValueError)
      else Inl ValueError)"
| "strptime_ymd _ = Inl ValueError"

section \<open>\<open>datetime\<close> and \<open>timedelta\<close> arithmetic\<close>

text \<open>\<open>timedelta(days=k)\<close> raises \<open>OverflowError\<close> beyond 999999999 days;
  adding it to a \<open>datetime\<close> raises when the result leaves \<open>[date.min, date.max]\<close>.\<close>

definition timedelta_days :: "int \<Rightarrow> py_error + int" where
  "timedelta_days k =
     (if - MAX_DELTA_DAYS \<le> k \<and> k \<le> MAX_DELTA_DAYS then Inr k else Inl OverflowError)"

definition dt_add :: "ordinal \<Rightarrow> int \<Rightarrow> py_error + ordinal" where
  "dt_add d k =
     (if MIN_ORDINAL \<le> d + k \<and> d + k \<le> MAX_ORDINAL then Inr (d + k) else Inl OverflowError)"

section \<open>The sprint calendar\<close>

text \<open>The dictionary literal of lines 11--15, in its source order.\<close>

definition SPRINT_CALENDAR :: "(int \<times> pystr) list" where
  "SPRINT_CALENDAR =
     [(36, py ''2026-02-13''), (35, py ''2026-01-23''), (34, py ''2025-12-12''),
      (33, py ''2025-11-21''), (32, py ''2025-10-31''), (31, py ''2025-10-10''),
      (30, py ''2025-09-19''), (29, py ''2025-08-29''), (28, py ''2025-08-08'')]"

text \<open>The constants of the fallback on line 24: \<open>datetime(2026, 2, 13)\<close>,
  sprint 36 and 21 days per sprint.\<close>

definition REFERENCE_DATE :: ordinal where
  "REFERENCE_DATE = ymd2ord 2026 2 13"

definition REFERENCE_SPRINT :: int where
  "REFERENCE_SPRINT = 36"

definition SPRINT_DAYS :: int where
  "SPRINT_DAYS = 21"

text \<open>
  \<open>get_limit_date\<close>: NaN (\<open>None\<close>) gives \<open>None\<close>; a tabled sprint gives
  \<open>strptime\<close> of its string; any other sprint gives
  \<open>datetime(2026, 2, 13) - timedelta(days=(36 - n) * 21)\<close>.
\<close>

fun get_limit_date :: "int option \<Rightarrow> py_error + ordinal option" where
  "get_limit_date None = Inr None"
| "get_limit_date (Some n) =
     (case map_of SPRINT_CALENDAR n of
        Some s \<Rightarrow> map_sum id Some (strptime_ymd s)
      | None \<Rightarrow>
          sbind (timedelta_days ((REFERENCE_SPRINT - n) * SPRINT_DAYS))
            (\<lambda>k. map_sum id Some (dt_add REFERENCE_DATE (- k))))"

text \<open>\<open>get_start_date\<close>: the previous sprint's end plus one day, \<open>None\<close> when
  that end is \<open>None\<close> (NaN minus one is NaN).\<close>

definition get_start_date :: "int option \<Rightarrow> py_error + ordinal option" where
  "get_start_date n =
     sbind (get_limit_date (map_option (\<lambda>k. k - 1) n))
       (\<lambda>prev. case prev of
                 None \<Rightarrow> Inr None
               | Some d \<Rightarrow> map_sum id Some (sbind (timedelta_days 1) (dt_add d)))"

section \<open>Evaluation of the table and of the fallback\<close>

lemmas date_eval =
  ymd2ord_def days_before_year_def days_before_month_def DAYS_BEFORE_MONTH_def
  valid_ymd_def days_in_month_def DAYS_IN_MONTH_def is_leap_def
  field2_def digit_value_def is_digit_def day_field_ok_def day_field_def

lemma REFERENCE_DATE_value: "REFERENCE_DATE = 739660"
  by (simp add: REFERENCE_DATE_def date_eval)

lemma calendar_keys: "map_of SPRINT_CALENDAR n = None \<longleftrightarrow> n < 28 \<or> 36 < n"
  by (auto simp: SPRINT_CALENDAR_def)

text \<open>The nine tabled end dates, as ordinals.\<close>

lemma get_limit_date_tabled:
  "get_limit_date (Some 28) = Inr (Some 739471)"
  "get_limit_date (Some 29) = Inr (Some 739492)"
  "get_limit_date (Some 30) = Inr (Some 739513)"
  "get_limit_date (Some 31) = Inr (Some 739534)"
  "get_limit_date (Some 32) = Inr (Some 739555)"
  "get_limit_date (Some 33) = Inr (Some 739576)"
  "get_limit_date (Some 34) = Inr (Some 739597)"
  "get_limit_date (Some 35) = Inr (Some 739639)"
  "get_limit_date (Some 36) = Inr (Some 739660)"
  by (simp_all add: SPRINT_CALENDAR_def date_eval)

lemma get_limit_date_untabled:
  assumes "n < 28 \<or> 36 < n"
  shows "get_limit_date (Some n) =
           (if -35185 \<le> n \<and> n \<le> 138721 then Inr (Some (739660 - (36 - n) * 21))
            else Inl OverflowError)"
proof -
  have none: "map_of SPRINT_CALENDAR n = None"
    using assms calendar_keys by blast
  show ?thesis
    by (simp add: none REFERENCE_DATE_value REFERENCE_SPRINT_def SPRINT_DAYS_def
        timedelta_days_def dt_add_def MIN_ORDINAL_def MAX_ORDINAL_def MAX_DELTA_DAYS_def)
qed

declare get_limit_date.simps(2) [simp del]

lemma get_limit_date_range:
  assumes "get_limit_date x = Inr (Some d)"
  shows "MIN_ORDINAL \<le> d \<and> d + 14 \<le> MAX_ORDINAL"
proof (cases "x")
  case None
  with assms show ?thesis by simp
next
  case (Some n)
  show ?thesis
  proof (cases "n < 28 \<or> 36 < n")
    case True
    with assms Some show ?thesis
      by (simp add: get_limit_date_untabled MIN_ORDINAL_def MAX_ORDINAL_def split: if_splits)
  next
    case False
    then have "n = 28 \<or> n = 29 \<or> n = 30 \<or> n = 31 \<or> n = 32 \<or> n = 33 \<or> n = 34 \<or> n = 35 \<or> n = 36"
      by presburger
    with assms Some show ?thesis
      by (auto simp: get_limit_date_tabled MIN_ORDINAL_def MAX_ORDINAL_def)
  qed
qed

lemma get_start_date_eq:
  "get_start_date x =
     map_sum id (map_option (\<lambda>d. d + 1)) (get_limit_date (map_option (\<lambda>k. k - 1) x))"
proof (cases "get_limit_date (map_option (\<lambda>k. k - 1) x)")
  case (Inl e)
  then show ?thesis by (simp add: get_start_date_def)
next
  case (Inr r)
  show ?thesis
  proof (cases r)
    case None
    with Inr show ?thesis by (simp add: get_start_date_def)
  next
    case (Some d)
    with Inr have "MIN_ORDINAL \<le> d \<and> d + 14 \<le> MAX_ORDINAL"
      by (simp add: get_limit_date_range)
    with Inr Some show ?thesis
      by (simp add: get_start_date_def timedelta_days_def dt_add_def
          MAX_DELTA_DAYS_def MIN_ORDINAL_def)
  qed
qed

lemma get_limit_date_cases:
  fixes n :: int
  obtains (low) "n \<le> 27" | (tabled) "28 \<le> n" "n \<le> 37" | (high) "38 \<le> n"
  by linarith

lemma int_28_37_cases:
  "28 \<le> (n::int) \<Longrightarrow> n \<le> 37 \<Longrightarrow>
   n = 28 \<or> n = 29 \<or> n = 30 \<or> n = 31 \<or> n = 32 \<or> n = 33 \<or> n = 34 \<or> n = 35
   \<or> n = 36 \<or> n = 37"
  by presburger

lemma get_limit_date_Inl_iff:
  "get_limit_date (Some n) = Inl e \<longleftrightarrow> e = OverflowError \<and> (n < -35185 \<or> 138721 < n)"
proof (cases "n < 28 \<or> 36 < n")
  case True
  then show ?thesis by (auto simp: get_limit_date_untabled)
next
  case False
  then have "28 \<le> n" "n \<le> 37" by auto
  then have "n = 28 \<or> n = 29 \<or> n = 30 \<or> n = 31 \<or> n = 32 \<or> n = 33 \<or> n = 34 \<or> n = 35
    \<or> n = 36 \<or> n = 37"
    by (rule int_28_37_cases)
  with False show ?thesis by (auto simp: get_limit_date_tabled)
qed

lemma get_limit_date_error: "get_limit_date x = Inl e \<Longrightarrow> e = OverflowError"
  by (cases x) (auto simp: get_limit_date_Inl_iff)

lemma get_start_date_error: "get_start_date x = Inl e \<Longrightarrow> e = OverflowError"
  using get_limit_date_error [of "map_option (\<lambda>k. k - 1) x"]
  by (cases "get_limit_date (map_option (\<lambda>k. k - 1) x)") (auto simp: get_start_date_eq)

lemma get_limit_date_Some_Inr:
  "get_limit_date (Some n) = Inr r \<Longrightarrow> \<exists>d. r = Some d"
proof (cases "n < 28 \<or> 36 < n")
  case True
  then show "get_limit_date (Some n) = Inr r \<Longrightarrow> \<exists>d. r = Some d"
    by (auto simp: get_limit_date_untabled split: if_splits)
next
  case False
  then have "28 \<le> n" "n \<le> 37" by auto
  then have "n = 28 \<or> n = 29 \<or> n = 30 \<or> n = 31 \<or> n = 32 \<or> n = 33 \<or> n = 34 \<or> n = 35
    \<or> n = 36 \<or> n = 37"
    by (rule int_28_37_cases)
  with False show "get_limit_date (Some n) = Inr r \<Longrightarrow> \<exists>d. r = Some d"
    by (auto simp: get_limit_date_tabled)
qed

lemma get_start_date_Some_Inr:
  "get_start_date (Some n) = Inr r \<Longrightarrow> \<exists>d. r = Some d"
  using get_limit_date_Some_Inr [of "n - 1"]
  by (cases "get_limit_date (Some (n - 1))") (auto simp: get_start_date_eq)

lemmas calendar_closed_forms =
  get_limit_date_tabled get_limit_date_untabled get_start_date_eq

subsection \<open>Properties of the resolver\<close>

text \<open>C22: the end date of every sprint number in closed form, with the
  source's numbers written out: \<open>OverflowError\<close> below -35185 and above
  138721; otherwise 2026-02-13 minus \<open>(36 - n) * 21\<close> days, except that the
  tabled sprints 28 to 34 end 21 days earlier than that line (the table skips
  three weeks before sprint 35), while the tabled sprints 35 and 36 lie on it.\<close>

theorem get_limit_date_closed_form:
  "get_limit_date (Some n) =
     (if n < -35185 \<or> 138721 < n then Inl OverflowError
      else Inr (Some (ymd2ord 2026 2 13 - (36 - n) * 21 - (if 28 \<le> n \<and> n \<le> 34 then 21 else 0))))"
proof -
  have y: "ymd2ord 2026 2 13 = 739660" by (simp add: date_eval)
  show ?thesis
  proof (cases "n < 28 \<or> 36 < n")
    case True
    then show ?thesis by (auto simp: get_limit_date_untabled y)
  next
    case False
    then have "28 \<le> n" "n \<le> 37" by auto
    then have "n = 28 \<or> n = 29 \<or> n = 30 \<or> n = 31 \<or> n = 32 \<or> n = 33 \<or> n = 34 \<or> n = 35
      \<or> n = 36 \<or> n = 37"
      by (rule int_28_37_cases)
    with False show ?thesis by (auto simp: get_limit_date_tabled y)
  qed
qed


text \<open>C24: \<open>get_start_date n\<close> is \<open>get_limit_date (n - 1)\<close> plus one day; a
  missing sprint number and an exception both propagate, and the added day
  never overflows.\<close>

theorem get_start_date_prev_end:
  "get_start_date x =
     map_sum id (map_option (\<lambda>d. d + 1)) (get_limit_date (map_option (\<lambda>k. k - 1) x))"
  by (rule get_start_date_eq)

text \<open>C21: every sprint in range has a start and an end date, and its
  window \<open>[start, end]\<close> holds 21 days, except sprint 35 (42 days) and
  sprint 28, whose window is empty: its start (the day after the
  extrapolated end of sprint 27, 2025-08-08) is the day after its own
  tabled end 2025-08-08.\<close>

theorem sprint_window_length:
  assumes "-35184 \<le> n" and "n \<le> 138721"
  shows "\<exists>s e. get_start_date (Some n) = Inr (Some s) \<and> get_limit_date (Some n) = Inr (Some e) \<and>
           e - s + 1 = (if n = 28 then 0 else if n = 35 then 42 else SPRINT_DAYS)"
proof (cases n rule: get_limit_date_cases)
  case low
  with assms show ?thesis
    by (simp add: get_start_date_eq get_limit_date_untabled SPRINT_DAYS_def)
next
  case tabled
  then have "n = 28 \<or> n = 29 \<or> n = 30 \<or> n = 31 \<or> n = 32 \<or> n = 33 \<or> n = 34 \<or> n = 35
    \<or> n = 36 \<or> n = 37"
    by (rule int_28_37_cases)
  then show ?thesis
    by (auto simp: get_start_date_eq get_limit_date_tabled get_limit_date_untabled SPRINT_DAYS_def)
next
  case high
  with assms show ?thesis
    by (simp add: get_start_date_eq get_limit_date_untabled SPRINT_DAYS_def)
qed

text \<open>C25: sprint end dates never decrease with the sprint number, and two
  consecutive sprints share an end date only at 27 and 28.\<close>

theorem get_limit_date_monotone:
  assumes "get_limit_date (Some n) = Inr (Some a)"
    and "get_limit_date (Some (n + 1)) = Inr (Some b)"
  shows "a \<le> b \<and> (a = b \<longleftrightarrow> n = 27)"
proof (cases "n + 1" rule: get_limit_date_cases)
  case low
  with assms show ?thesis
    by (simp add: get_limit_date_untabled split: if_splits)
next
  case tabled
  then have "n + 1 = 28 \<or> n + 1 = 29 \<or> n + 1 = 30 \<or> n + 1 = 31 \<or> n + 1 = 32
    \<or> n + 1 = 33 \<or> n + 1 = 34 \<or> n + 1 = 35 \<or> n + 1 = 36 \<or> n + 1 = 37"
    by (rule int_28_37_cases)
  then have "n = 27 \<or> n = 28 \<or> n = 29 \<or> n = 30 \<or> n = 31 \<or> n = 32 \<or> n = 33 \<or> n = 34
    \<or> n = 35 \<or> n = 36"
    by arith
  with assms show ?thesis
    by (auto simp: get_limit_date_tabled get_limit_date_untabled)
next
  case high
  with assms show ?thesis
    by (simp add: get_limit_date_untabled split: if_splits)
qed

subsection \<open>Witnesses\<close>

theorem sprint_window_length_witness:
  "-35184 \<le> (28::int) \<and> (28::int) \<le> 138721 \<and>
   (\<exists>s e. get_start_date (Some 28) = Inr (Some s) \<and> get_limit_date (Some 28) = Inr (Some e) \<and>
      e - s + 1 = 0)"
  using sprint_window_length [of 28] by simp

theorem get_limit_date_monotone_witness:
  "get_limit_date (Some 27) = Inr (Some 739471) \<and> get_limit_date (Some (27 + 1)) = Inr (Some 739471) \<and>
   739471 \<le> (739471::int) \<and> (739471 = (739471::int) \<longleftrightarrow> (27::int) = 27)"
proof -
  have a: "get_limit_date (Some 27) = Inr (Some 739471)"
    by (simp add: get_limit_date_untabled)
  have b: "get_limit_date (Some (27 + 1)) = Inr (Some 739471)"
    by (simp add: get_limit_date_tabled)
  show ?thesis using a b get_limit_date_monotone [OF a b] by simp
qed

end
