(* ===== verification/Frame.thy ===== *)
theory Frame
  imports Calendar
begin

text \<open>
  The dataset preparation \<open>preparar_dataframe\<close> of
  \<open>src/frontend/kpi_engine.py\<close> (lines 30--47) on a model of the pandas
  DataFrame it receives: a set of present columns, the dtype of the
  \<open>iteration\<close> column, and the rows as records whose fields are the cells of
  the columns the engine touches (\<open>None\<close> is NaN/NaT). A date cell holds what
  \<open>pd.to_datetime\<close> makes of the raw value: a naive timestamp, a timestamp
  with a UTC offset, or text it cannot parse. The preparation runs as the
  code does, column by column: the date conversions of lines 35--38, then the
  sprint number (line 42), the \<open>apply\<close> of \<open>get_limit_date\<close> over all rows
  (line 43), the \<open>apply\<close> of \<open>get_start_date\<close> (line 44) and the one-day
  tolerance (line 45).
\<close>

section \<open>Cells, rows and frames\<close>

datatype dcell = DNaive instant | DOffset instant int | DUnparseable

text \<open>\<open>pd.Timestamp.min\<close> and \<open>pd.Timestamp.max\<close> in nanoseconds.\<close>

definition TS_MIN :: instant where
  "TS_MIN = -9223372036854775807"

definition TS_MAX :: instant where
  "TS_MAX = 9223372036854775807"

definition NS_PER_SECOND :: int where
  "NS_PER_SECOND = 1000000000"

definition in_ts_bounds :: "instant \<Rightarrow> bool" where
  "in_ts_bounds t \<longleftrightarrow> TS_MIN \<le> t \<and> t \<le> TS_MAX"

text \<open>Line 38, one cell: \<open>pd.to_datetime(..., errors='coerce', utc=True)\<close> then
  \<open>.dt.tz_convert(None)\<close>. An offset is converted to UTC (offsets in seconds),
  a naive value is taken as UTC, unparseable or out-of-range values become
  NaT, and the result is naive.\<close>

fun to_datetime_utc :: "dcell option \<Rightarrow> dcell option" where
  "to_datetime_utc None = None"
| "to_datetime_utc (Some DUnparseable) = None"
| "to_datetime_utc (Some (DNaive t)) = (if in_ts_bounds t then Some (DNaive t) else None)"
| "to_datetime_utc (Some (DOffset t off)) =
     (let u = t - off * NS_PER_SECOND in if in_ts_bounds u then Some (DNaive u) else None)"

datatype dtype = ObjectDtype | NumericDtype

record row =
  closedDate :: "dcell option"
  activatedDate :: "dcell option"
  createdDate :: "dcell option"
  prospectar :: "dcell option"
  analise :: "dcell option"
  iteration :: "pystr option"
  item_type :: "pystr option"
  tipoSolucao :: "pystr option"
  sprint_num :: "int option"
  sprint_end :: "instant option"
  sprint_start :: "instant option"
  sprint_end_tol :: "instant option"

record frame =
  columns :: "column set"
  iteration_dtype :: dtype
  rows :: "row list"

fun get_date :: "column \<Rightarrow> row \<Rightarrow> dcell option" where
  "get_date ClosedDate r = closedDate r"
| "get_date ActivatedDate r = activatedDate r"
| "get_date CreatedDate r = createdDate r"
| "get_date Prospectar r = prospectar r"
| "get_date Analise r = analise r"
| "get_date _ r = None"

fun set_date :: "column \<Rightarrow> dcell option \<Rightarrow> row \<Rightarrow> row" where
  "set_date ClosedDate v r = r\<lparr>closedDate := v\<rparr>"
| "set_date ActivatedDate v r = r\<lparr>activatedDate := v\<rparr>"
| "set_date CreatedDate v r = r\<lparr>createdDate := v\<rparr>"
| "set_date Prospectar v r = r\<lparr>prospectar := v\<rparr>"
| "set_date Analise v r = r\<lparr>analise := v\<rparr>"
| "set_date _ v r = r"

section \<open>\<open>preparar_dataframe\<close>\<close>

text \<open>Lines 35--38: the date columns, each converted when present.\<close>

definition cols_data :: "column list" where
  "cols_data = [ClosedDate, ActivatedDate, CreatedDate, Prospectar, Analise]"

definition convert_column :: "column \<Rightarrow> frame \<Rightarrow> frame" where
  "convert_column col f =
     (if col \<in> columns f
      then f\<lparr>rows := map (\<lambda>r. set_date col (to_datetime_utc (get_date col r)) r) (rows f)\<rparr>
      else f)"

definition convert_dates :: "frame \<Rightarrow> frame" where
  "convert_dates f = fold convert_column cols_data f"

text \<open>Line 42, one cell: \<open>.str.extract(r'Sprint (\d+)')\<close> (NaN for a missing
  or non-text cell, NaN without a match) and \<open>.astype(float)\<close>.\<close>

definition sprint_num_of :: "pystr option \<Rightarrow> int option" where
  "sprint_num_of cell = map_option int (Option.bind cell extract_sprint)"

text \<open>Lines 43--45 after the \<open>apply\<close> passes: the boundary columns of one row
  from its resolved end and start dates (datetimes stored as timestamps), and
  \<open>sprint_end + timedelta(days=1)\<close>, NaT staying NaT.\<close>

definition set_bounds :: "row \<Rightarrow> ordinal option \<Rightarrow> ordinal option \<Rightarrow> row" where
  "set_bounds r e s =
     r\<lparr>sprint_end := map_option ordinal_ns e, sprint_start := map_option ordinal_ns s,
       sprint_end_tol := map_option (\<lambda>d. ordinal_ns d + NS_PER_DAY) e\<rparr>"

definition add_sprint_columns :: "row list \<Rightarrow> py_error + row list" where
  "add_sprint_columns rs =
     (let rs1 = map (\<lambda>r. r\<lparr>sprint_num := sprint_num_of (iteration r)\<rparr>) rs
      in sbind (smap (\<lambda>r. get_limit_date (sprint_num r)) rs1) (\<lambda>ends.
         sbind (smap (\<lambda>r. get_start_date (sprint_num r)) rs1) (\<lambda>starts.
         Inr (map (\<lambda>(r, e, s). set_bounds r e s) (zip rs1 (zip ends starts))))))"

definition SPRINT_COLUMNS :: "column set" where
  "SPRINT_COLUMNS = {SprintNum, SprintEnd, SprintStart, SprintEndTol}"

text \<open>Lines 41--45: only when the \<open>iteration\<close> column exists; \<open>.str\<close> on a
  column of non-text dtype raises \<open>AttributeError\<close>.\<close>

definition preparar_dataframe :: "frame \<Rightarrow> py_error + frame" where
  "preparar_dataframe f =
     (let f1 = convert_dates f
      in if Iteration \<in> columns f1 then
           (if iteration_dtype f1 = NumericDtype then Inl AttributeError
            else sbind (add_sprint_columns (rows f1))
                   (\<lambda>rs. Inr (f1\<lparr>columns := columns f1 \<union> SPRINT_COLUMNS, rows := rs\<rparr>)))
         else Inr f1)"

section \<open>A row-wise reference for the preparation\<close>

text \<open>What the spec describes per record: convert the present date fields,
  extract the sprint number, resolve its end and start, add the tolerance.\<close>

definition convert_step :: "column set \<Rightarrow> column \<Rightarrow> row \<Rightarrow> row" where
  "convert_step cs col r = (if col \<in> cs then set_date col (to_datetime_utc (get_date col r)) r else r)"

definition convert_row :: "column set \<Rightarrow> row \<Rightarrow> row" where
  "convert_row cs r = fold (convert_step cs) cols_data r"

definition sprint_row :: "row \<Rightarrow> py_error + row" where
  "sprint_row r =
     (let r1 = r\<lparr>sprint_num := sprint_num_of (iteration r)\<rparr>
      in sbind (get_limit_date (sprint_num r1)) (\<lambda>e.
         sbind (get_start_date (sprint_num r1)) (\<lambda>s. Inr (set_bounds r1 e s))))"

definition prepare_row :: "column set \<Rightarrow> row \<Rightarrow> py_error + row" where
  "prepare_row cs r =
     (if Iteration \<in> cs then sprint_row (convert_row cs r) else Inr (convert_row cs r))"

section \<open>The invariant of prepared frames\<close>

text \<open>A prepared frame: every present date column holds only naive in-range
  timestamps or NaT, and when the iteration column is present every row's
  sprint columns agree with its label and with the resolver.\<close>

definition normalized_cell :: "dcell option \<Rightarrow> bool" where
  "normalized_cell c \<longleftrightarrow> (case c of None \<Rightarrow> True | Some (DNaive t) \<Rightarrow> in_ts_bounds t | Some _ \<Rightarrow> False)"

definition sprint_consistent :: "row \<Rightarrow> bool" where
  "sprint_consistent r \<longleftrightarrow>
     sprint_num r = sprint_num_of (iteration r) \<and>
     (case sprint_num r of
        None \<Rightarrow> sprint_end r = None \<and> sprint_start r = None \<and> sprint_end_tol r = None
      | Some n \<Rightarrow>
          (case (get_limit_date (Some n), get_start_date (Some n)) of
             (Inr (Some e), Inr (Some s)) \<Rightarrow>
               sprint_end r = Some (ordinal_ns e) \<and> sprint_start r = Some (ordinal_ns s) \<and>
               sprint_end_tol r = Some (ordinal_ns e + NS_PER_DAY)
           | _ \<Rightarrow> False))"

definition row_prepared :: "column set \<Rightarrow> row \<Rightarrow> bool" where
  "row_prepared cs r \<longleftrightarrow>
     (\<forall>col\<in>set cols_data. col \<in> cs \<longrightarrow> normalized_cell (get_date col r)) \<and>
     (Iteration \<in> cs \<longrightarrow> sprint_consistent r)"

definition prepared :: "frame \<Rightarrow> bool" where
  "prepared f \<longleftrightarrow>
     (Iteration \<in> columns f \<longrightarrow> iteration_dtype f = ObjectDtype \<and> SPRINT_COLUMNS \<subseteq> columns f) \<and>
     (\<forall>r\<in>set (rows f). row_prepared (columns f) r)"

text \<open>A row that carries only an iteration label (for the spec's scenarios).\<close>

definition label_row :: "pystr \<Rightarrow> row" where
  "label_row s = \<lparr>closedDate = None, activatedDate = None, createdDate = None, prospectar = None,
     analise = None, iteration = Some s, item_type = None, tipoSolucao = None, sprint_num = None,
     sprint_end = None, sprint_start = None, sprint_end_tol = None\<rparr>"

section \<open>Lemmas on the preparation\<close>

lemma columns_convert_column [simp]: "columns (convert_column col f) = columns f"
  by (simp add: convert_column_def)

lemma iteration_dtype_convert_column [simp]:
  "iteration_dtype (convert_column col f) = iteration_dtype f"
  by (simp add: convert_column_def)

lemma convert_column_rows:
  "convert_column col f = f\<lparr>rows := map (convert_step (columns f) col) (rows f)\<rparr>"
proof (cases "col \<in> columns f")
  case True
  then show ?thesis by (simp add: convert_column_def convert_step_def)
next
  case False
  then have "map (convert_step (columns f) col) (rows f) = rows f"
    by (intro map_idI) (simp add: convert_step_def)
  with False show ?thesis by (simp add: convert_column_def)
qed

lemma fold_convert_column:
  "fold convert_column cols f = f\<lparr>rows := map (fold (convert_step (columns f)) cols) (rows f)\<rparr>"
proof (induction cols arbitrary: f)
  case Nil
  then show ?case by simp
next
  case (Cons col cols)
  with convert_column_rows [of col f] show ?case
    by simp
qed

lemma convert_dates_rows:
  "convert_dates f = f\<lparr>rows := map (convert_row (columns f)) (rows f)\<rparr>"
  by (simp add: convert_dates_def fold_convert_column convert_row_def)

lemma add_sprint_columns_rowwise:
  "add_sprint_columns rs = smap sprint_row rs"
proof -
  let ?rs1 = "map (\<lambda>r. r\<lparr>sprint_num := sprint_num_of (iteration r)\<rparr>) rs"
  have "add_sprint_columns rs =
          smap (\<lambda>x. sbind (get_limit_date (sprint_num x)) (\<lambda>e.
             sbind (get_start_date (sprint_num x)) (\<lambda>s. Inr (set_bounds x e s)))) ?rs1"
    unfolding add_sprint_columns_def Let_def
    using two_passes_one_pass [where f = "\<lambda>r. get_limit_date (sprint_num r)" and err = OverflowError
        and g = "\<lambda>r. get_start_date (sprint_num r)" and h = "\<lambda>(r, e, s). set_bounds r e s"
        and xs = ?rs1]
      get_limit_date_error get_start_date_error
    by simp
  also have "\<dots> = smap sprint_row rs"
    by (simp add: smap_map sprint_row_def [abs_def] Let_def)
  finally show ?thesis .
qed

lemma preparar_rowwise:
  "preparar_dataframe f =
     (if Iteration \<in> columns f \<and> iteration_dtype f = NumericDtype then Inl AttributeError
      else sbind (smap (prepare_row (columns f)) (rows f))
             (\<lambda>rs. Inr (f\<lparr>columns := columns f \<union> (if Iteration \<in> columns f then SPRINT_COLUMNS else {}),
                         rows := rs\<rparr>)))"
proof (cases "Iteration \<in> columns f")
  case True
  then have "prepare_row (columns f) = (\<lambda>r. sprint_row (convert_row (columns f) r))"
    by (simp add: prepare_row_def fun_eq_iff)
  with True show ?thesis
    by (simp add: preparar_dataframe_def convert_dates_rows add_sprint_columns_rowwise smap_map)
next
  case False
  then have "smap (prepare_row (columns f)) (rows f) = Inr (map (convert_row (columns f)) (rows f))"
    by (intro smap_cong_ok) (simp add: prepare_row_def)
  with False show ?thesis
    by (simp add: preparar_dataframe_def convert_dates_rows)
qed
lemma normalized_to_datetime_utc [simp]: "normalized_cell (to_datetime_utc c)"
  by (cases c rule: to_datetime_utc.cases) (simp_all add: normalized_cell_def Let_def)

lemma to_datetime_utc_normalized: "normalized_cell c \<Longrightarrow> to_datetime_utc c = c"
  by (cases c rule: to_datetime_utc.cases) (simp_all add: normalized_cell_def)

lemma convert_row_eq:
  "convert_row cs r =
     r\<lparr>closedDate := (if ClosedDate \<in> cs then to_datetime_utc (closedDate r) else closedDate r),
       activatedDate := (if ActivatedDate \<in> cs then to_datetime_utc (activatedDate r) else activatedDate r),
       createdDate := (if CreatedDate \<in> cs then to_datetime_utc (createdDate r) else createdDate r),
       prospectar := (if Prospectar \<in> cs then to_datetime_utc (prospectar r) else prospectar r),
       analise := (if Analise \<in> cs then to_datetime_utc (analise r) else analise r)\<rparr>"
  by (simp add: convert_row_def cols_data_def convert_step_def)

lemma sprint_num_of_nonneg: "sprint_num_of c = Some n \<Longrightarrow> 0 \<le> n"
  by (auto simp: sprint_num_of_def)

lemma get_start_date_Inl_iff:
  assumes "0 \<le> n"
  shows "get_start_date (Some n) = Inl e \<longleftrightarrow> e = OverflowError \<and> 138722 < n"
proof -
  have "get_start_date (Some n) = Inl e \<longleftrightarrow> get_limit_date (Some (n - 1)) = Inl e"
    by (cases "get_limit_date (Some (n - 1))") (simp_all add: get_start_date_eq)
  also have "\<dots> \<longleftrightarrow> e = OverflowError \<and> 138722 < n"
    using assms by (simp add: get_limit_date_Inl_iff)
  finally show ?thesis .
qed

lemma sprint_row_Inl_iff:
  "sprint_row r = Inl e \<longleftrightarrow>
     e = OverflowError \<and> (\<exists>n. sprint_num_of (iteration r) = Some n \<and> 138721 < n)"
proof (cases "sprint_num_of (iteration r)")
  case None
  then show ?thesis by (simp add: sprint_row_def get_start_date_eq)
next
  case (Some n)
  then have n0: "0 \<le> n" by (rule sprint_num_of_nonneg)
  have row: "sprint_row r = sbind (get_limit_date (Some n)) (\<lambda>e'. sbind (get_start_date (Some n))
               (\<lambda>s. Inr (set_bounds (r\<lparr>sprint_num := Some n\<rparr>) e' s)))"
    using Some by (simp add: sprint_row_def)
  show ?thesis
  proof (cases "138721 < n")
    case True
    then have "get_limit_date (Some n) = Inl OverflowError"
      by (simp add: get_limit_date_Inl_iff)
    with row Some True show ?thesis by auto
  next
    case False
    with n0 have "\<forall>e. get_limit_date (Some n) \<noteq> Inl e"
      by (simp add: get_limit_date_Inl_iff)
    then obtain a where a: "get_limit_date (Some n) = Inr a"
      by (cases "get_limit_date (Some n)") auto
    from False have "\<forall>e. get_start_date (Some n) \<noteq> Inl e"
      by (simp add: get_start_date_Inl_iff [OF n0])
    then obtain b where b: "get_start_date (Some n) = Inr b"
      by (cases "get_start_date (Some n)") auto
    from row a b Some False show ?thesis by simp
  qed
qed
lemma sprint_row_Inr:
  assumes "sprint_row r = Inr r'"
  shows "sprint_consistent r' \<and>
    r'\<lparr>sprint_num := sprint_num r, sprint_end := sprint_end r, sprint_start := sprint_start r,
       sprint_end_tol := sprint_end_tol r\<rparr> = r"
proof (cases "sprint_num_of (iteration r)")
  case None
  with assms show ?thesis
    by (auto simp: sprint_row_def sprint_consistent_def set_bounds_def get_start_date_eq)
next
  case (Some n)
  with assms obtain e s where e: "get_limit_date (Some n) = Inr e" and s: "get_start_date (Some n) = Inr s"
    by (auto simp: sprint_row_def)
  obtain d where d: "e = Some d" using get_limit_date_Some_Inr [OF e] by blast
  obtain d' where d': "s = Some d'" using get_start_date_Some_Inr [OF s] by blast
  from assms Some e s d d' have "r' = set_bounds (r\<lparr>sprint_num := Some n\<rparr>) (Some d) (Some d')"
    by (simp add: sprint_row_def)
  with Some e s d d' show ?thesis
    by (simp add: sprint_consistent_def set_bounds_def)
qed

lemma get_date_sprint_update [simp]:
  "get_date col (r\<lparr>sprint_num := a, sprint_end := b, sprint_start := c, sprint_end_tol := d\<rparr>) = get_date col r"
  by (cases col) simp_all

lemma get_date_convert_row:
  "col \<in> set cols_data \<Longrightarrow>
   get_date col (convert_row cs r) = (if col \<in> cs then to_datetime_utc (get_date col r) else get_date col r)"
  by (auto simp: cols_data_def convert_row_eq)

lemma convert_row_text [simp]:
  "iteration (convert_row cs r) = iteration r" "item_type (convert_row cs r) = item_type r"
  "tipoSolucao (convert_row cs r) = tipoSolucao r" "sprint_num (convert_row cs r) = sprint_num r"
  "sprint_end (convert_row cs r) = sprint_end r" "sprint_start (convert_row cs r) = sprint_start r"
  "sprint_end_tol (convert_row cs r) = sprint_end_tol r"
  by (simp_all add: convert_row_eq)

lemma sprint_row_fields:
  assumes "sprint_row r = Inr r'"
  shows "get_date col r' = get_date col r" "iteration r' = iteration r" "item_type r' = item_type r"
    "tipoSolucao r' = tipoSolucao r"
proof -
  let ?u = "r'\<lparr>sprint_num := sprint_num r, sprint_end := sprint_end r, sprint_start := sprint_start r,
       sprint_end_tol := sprint_end_tol r\<rparr>"
  have eq: "?u = r" using sprint_row_Inr [OF assms] by blast
  have "get_date col ?u = get_date col r'" by simp
  with eq show "get_date col r' = get_date col r" by simp
  have "iteration ?u = iteration r'" "item_type ?u = item_type r'" "tipoSolucao ?u = tipoSolucao r'"
    by simp_all
  with eq show "iteration r' = iteration r" "item_type r' = item_type r" "tipoSolucao r' = tipoSolucao r"
    by simp_all
qed

lemma SPRINT_COLUMNS_dates: "col \<in> set cols_data \<Longrightarrow> col \<notin> SPRINT_COLUMNS"
  by (auto simp: cols_data_def SPRINT_COLUMNS_def)

lemma prepare_row_prepared:
  assumes "prepare_row cs r = Inr r'"
  shows "row_prepared (cs \<union> (if Iteration \<in> cs then SPRINT_COLUMNS else {})) r'"
proof -
  have dates: "normalized_cell (get_date col r')" if "col \<in> set cols_data" "col \<in> cs" for col
  proof (cases "Iteration \<in> cs")
    case True
    with assms have "sprint_row (convert_row cs r) = Inr r'" by (simp add: prepare_row_def)
    then have "get_date col r' = get_date col (convert_row cs r)" by (rule sprint_row_fields)
    with that show ?thesis by (simp add: get_date_convert_row)
  next
    case False
    with assms that show ?thesis by (auto simp: prepare_row_def get_date_convert_row)
  qed
  have sprint: "sprint_consistent r'" if "Iteration \<in> cs"
  proof -
    from assms that have "sprint_row (convert_row cs r) = Inr r'" by (simp add: prepare_row_def)
    then show ?thesis using sprint_row_Inr by blast
  qed
  show ?thesis
    using dates sprint SPRINT_COLUMNS_dates by (auto simp: row_prepared_def SPRINT_COLUMNS_def)
qed

lemma convert_row_prepared:
  assumes "\<forall>col\<in>set cols_data. col \<in> cs \<longrightarrow> normalized_cell (get_date col r)"
  shows "convert_row cs r = r"
  using assms by (simp add: convert_row_eq cols_data_def to_datetime_utc_normalized)

lemma sprint_consistent_Some:
  assumes "sprint_num r = Some n"
  shows "sprint_consistent r \<longleftrightarrow> sprint_num_of (iteration r) = Some n \<and>
    (\<exists>e s. get_limit_date (Some n) = Inr (Some e) \<and> get_start_date (Some n) = Inr (Some s) \<and>
       sprint_end r = Some (ordinal_ns e) \<and> sprint_start r = Some (ordinal_ns s) \<and>
       sprint_end_tol r = Some (ordinal_ns e + NS_PER_DAY))"
  using assms unfolding sprint_consistent_def
  by (cases "get_limit_date (Some n)"; cases "get_start_date (Some n)") (auto split: option.split)

lemma sprint_row_consistent:
  assumes "sprint_consistent r"
  shows "sprint_row r = Inr r"
proof (cases "sprint_num r")
  case None
  with assms show ?thesis
    by (simp add: sprint_row_def sprint_consistent_def set_bounds_def get_start_date_eq)
next
  case (Some n)
  with assms obtain e s where "sprint_num_of (iteration r) = Some n"
    and "get_limit_date (Some n) = Inr (Some e)" and "get_start_date (Some n) = Inr (Some s)"
    and "sprint_end r = Some (ordinal_ns e)" "sprint_start r = Some (ordinal_ns s)"
      "sprint_end_tol r = Some (ordinal_ns e + NS_PER_DAY)"
    using sprint_consistent_Some by blast
  with Some show ?thesis
    by (simp add: sprint_row_def set_bounds_def)
qed

lemma prepare_row_fixed:
  assumes "row_prepared cs r"
  shows "prepare_row cs r = Inr r"
  using assms convert_row_prepared [of cs r] sprint_row_consistent [of r]
  by (simp add: prepare_row_def row_prepared_def)
lemma prepare_row_text:
  assumes "prepare_row cs r = Inr r'"
  shows "iteration r' = iteration r \<and> item_type r' = item_type r \<and> tipoSolucao r' = tipoSolucao r"
proof (cases "Iteration \<in> cs")
  case True
  with assms have "sprint_row (convert_row cs r) = Inr r'" by (simp add: prepare_row_def)
  then show ?thesis using sprint_row_fields by simp
next
  case False
  with assms show ?thesis by (auto simp: prepare_row_def)
qed

lemma prepare_row_error:
  "prepare_row cs r = Inl e \<Longrightarrow> e = OverflowError"
  by (auto simp: prepare_row_def sprint_row_Inl_iff split: if_splits)

lemma preparar_Inr:
  assumes "preparar_dataframe f = Inr g"
  obtains rs where "smap (prepare_row (columns f)) (rows f) = Inr rs"
    and "g = f\<lparr>columns := columns f \<union> (if Iteration \<in> columns f then SPRINT_COLUMNS else {}), rows := rs\<rparr>"
    and "Iteration \<in> columns f \<longrightarrow> iteration_dtype f = ObjectDtype"
proof -
  have nd: "\<not> (Iteration \<in> columns f \<and> iteration_dtype f = NumericDtype)"
  proof
    assume "Iteration \<in> columns f \<and> iteration_dtype f = NumericDtype"
    then have "preparar_dataframe f = Inl AttributeError" by (simp add: preparar_rowwise)
    with assms show False by simp
  qed
  then have "sbind (smap (prepare_row (columns f)) (rows f))
      (\<lambda>rs. Inr (f\<lparr>columns := columns f \<union> (if Iteration \<in> columns f then SPRINT_COLUMNS else {}),
                  rows := rs\<rparr>)) = Inr g"
    using assms by (simp only: preparar_rowwise if_False)
  moreover have "Iteration \<in> columns f \<longrightarrow> iteration_dtype f = ObjectDtype"
    using nd by (cases "iteration_dtype f") auto
  ultimately show ?thesis using that by auto
qed

lemma preparar_prepared:
  assumes "preparar_dataframe f = Inr g"
  shows "prepared g"
proof -
  obtain rs where rs: "smap (prepare_row (columns f)) (rows f) = Inr rs"
    and g: "g = f\<lparr>columns := columns f \<union> (if Iteration \<in> columns f then SPRINT_COLUMNS else {}), rows := rs\<rparr>"
    and dt: "Iteration \<in> columns f \<longrightarrow> iteration_dtype f = ObjectDtype"
    using preparar_Inr [OF assms] by blast
  have "row_prepared (columns g) r'" if r': "r' \<in> set rs" for r'
  proof -
    obtain x where "prepare_row (columns f) x = Inr r'"
      using smap_Inr_elem [OF rs r'] by blast
    then have "row_prepared (columns f \<union> (if Iteration \<in> columns f then SPRINT_COLUMNS else {})) r'"
      by (rule prepare_row_prepared)
    with g show ?thesis by simp
  qed
  with g dt show ?thesis
    by (auto simp: prepared_def SPRINT_COLUMNS_def)
qed

lemma prepared_fixed:
  assumes "prepared g"
  shows "preparar_dataframe g = Inr g"
proof -
  have "smap (prepare_row (columns g)) (rows g) = Inr (map (\<lambda>r. r) (rows g))"
    using assms by (intro smap_cong_ok) (simp add: prepared_def prepare_row_fixed)
  then have rows: "smap (prepare_row (columns g)) (rows g) = Inr (rows g)"
    by simp
  have dt: "\<not> (Iteration \<in> columns g \<and> iteration_dtype g = NumericDtype)"
    using assms by (auto simp: prepared_def)
  have cols: "columns g \<union> (if Iteration \<in> columns g then SPRINT_COLUMNS else {}) = columns g"
    using assms by (auto simp: prepared_def)
  have "preparar_dataframe g = Inr (g\<lparr>columns := columns g, rows := rows g\<rparr>)"
    using dt rows cols by (simp only: preparar_rowwise if_False sbind.simps)
  then show ?thesis by simp
qed
lemma preparar_Inl_iff:
  "preparar_dataframe f = Inl e \<longleftrightarrow>
     Iteration \<in> columns f \<and>
     (iteration_dtype f = NumericDtype \<and> e = AttributeError \<or>
      iteration_dtype f = ObjectDtype \<and> e = OverflowError \<and>
      (\<exists>r\<in>set (rows f). \<exists>n. sprint_num_of (iteration r) = Some n \<and> 138721 < n))"
proof (cases "Iteration \<in> columns f")
  case False
  then have "smap (prepare_row (columns f)) (rows f) = Inr (map (convert_row (columns f)) (rows f))"
    by (intro smap_cong_ok) (simp add: prepare_row_def)
  with False show ?thesis by (simp add: preparar_rowwise)
next
  case True
  show ?thesis
  proof (cases "iteration_dtype f")
    case NumericDtype
    with True show ?thesis by (auto simp: preparar_rowwise)
  next
    case ObjectDtype
    have row_err: "(\<exists>e'. prepare_row (columns f) r = Inl e') \<longleftrightarrow>
        (\<exists>n. sprint_num_of (iteration r) = Some n \<and> 138721 < n)" for r
      using True by (simp add: prepare_row_def sprint_row_Inl_iff)
    have "preparar_dataframe f = Inl e \<longleftrightarrow> smap (prepare_row (columns f)) (rows f) = Inl e"
      using True ObjectDtype by (simp add: preparar_rowwise sbind_eq_Inl)
    also have "\<dots> \<longleftrightarrow> e = OverflowError \<and> (\<exists>r\<in>set (rows f). \<exists>e'. prepare_row (columns f) r = Inl e')"
      using prepare_row_error by (rule smap_Inl_single)
    finally show ?thesis
      using True ObjectDtype row_err by auto
  qed
qed

lemma preparar_preserves:
  assumes "preparar_dataframe f = Inr g"
  shows "columns g = columns f \<union> (if Iteration \<in> columns f then SPRINT_COLUMNS else {}) \<and>
    iteration_dtype g = iteration_dtype f \<and>
    map iteration (rows g) = map iteration (rows f) \<and> map item_type (rows g) = map item_type (rows f) \<and>
    map tipoSolucao (rows g) = map tipoSolucao (rows f)"
proof -
  obtain rs where rs: "smap (prepare_row (columns f)) (rows f) = Inr rs"
    and g: "g = f\<lparr>columns := columns f \<union> (if Iteration \<in> columns f then SPRINT_COLUMNS else {}), rows := rs\<rparr>"
    using preparar_Inr [OF assms] by blast
  have "map iteration rs = map iteration (rows f)"
    using rs by (rule smap_Inr_map) (simp add: prepare_row_text)
  moreover have "map item_type rs = map item_type (rows f)"
    using rs by (rule smap_Inr_map) (simp add: prepare_row_text)
  moreover have "map tipoSolucao rs = map tipoSolucao (rows f)"
    using rs by (rule smap_Inr_map) (simp add: prepare_row_text)
  ultimately show ?thesis using g by simp
qed

lemma preparar_keeps_rows_iteration:
  "preparar_dataframe f = Inr g \<Longrightarrow> columns f \<subseteq> columns g"
  using preparar_preserves by blast

lemmas label_eval = label_row_def sprint_num_of_def SPRINT_TOKEN_def sprint_match_def is_digit_def
  read_nat_def

section \<open>Properties of the preparation\<close>

text \<open>C17: a prepared frame satisfies the invariant: present date columns
  hold only naive in-range timestamps or NaT, and with an iteration column
  each row's sprint number is the one its label gives, its three boundary
  columns are all NaT exactly when the sprint number is NaN, and otherwise
  they are the resolved end, start and end plus one day.\<close>

theorem preparar_establishes_invariant:
  assumes "preparar_dataframe f = Inr g"
  shows "prepared g"
  using assms by (rule preparar_prepared)

text \<open>C19: preparing a prepared frame again changes nothing.\<close>

theorem preparar_idempotent:
  assumes "preparar_dataframe f = Inr g"
  shows "preparar_dataframe g = Inr g"
  using preparar_prepared [OF assms] by (rule prepared_fixed)


text \<open>C20: the preparation keeps the rows and their text columns, keeps the
  dtype, and adds the four sprint columns exactly when the iteration column
  is present.\<close>

theorem preparar_keeps_rows:
  assumes "preparar_dataframe f = Inr g"
  shows "columns g = columns f \<union> (if Iteration \<in> columns f then SPRINT_COLUMNS else {}) \<and>
    iteration_dtype g = iteration_dtype f \<and>
    map iteration (rows g) = map iteration (rows f) \<and> map item_type (rows g) = map item_type (rows f) \<and>
    map tipoSolucao (rows g) = map tipoSolucao (rows f)"
  using assms by (rule preparar_preserves)

subsection \<open>Witnesses\<close>

lemma example_frame_prepares:
  "\<exists>g. preparar_dataframe \<lparr>columns = {Iteration, ClosedDate}, iteration_dtype = ObjectDtype,
        rows = [label_row (py ''Sprint 34''), label_row (py ''no sprint'')]\<rparr> = Inr g"
proof -
  have "\<not> (\<exists>e. preparar_dataframe \<lparr>columns = {Iteration, ClosedDate}, iteration_dtype = ObjectDtype,
        rows = [label_row (py ''Sprint 34''), label_row (py ''no sprint'')]\<rparr> = Inl e)"
    by (simp add: preparar_Inl_iff label_eval)
  then show ?thesis by (meson sum.exhaust)
qed

theorem preparar_establishes_invariant_witness:
  "\<exists>g. preparar_dataframe \<lparr>columns = {Iteration, ClosedDate}, iteration_dtype = ObjectDtype,
        rows = [label_row (py ''Sprint 34''), label_row (py ''no sprint'')]\<rparr> = Inr g \<and>
      list_all sprint_consistent (rows g)"
proof -
  obtain g where g: "preparar_dataframe \<lparr>columns = {Iteration, ClosedDate}, iteration_dtype = ObjectDtype,
        rows = [label_row (py ''Sprint 34''), label_row (py ''no sprint'')]\<rparr> = Inr g"
    using example_frame_prepares by blast
  have "prepared g" using g by (rule preparar_establishes_invariant)
  moreover have "Iteration \<in> columns g"
    using preparar_keeps_rows_iteration [OF g] by simp
  ultimately have "list_all sprint_consistent (rows g)"
    by (auto simp: prepared_def row_prepared_def list_all_iff)
  with g show ?thesis by blast
qed

theorem preparar_idempotent_witness:
  "\<exists>g. preparar_dataframe \<lparr>columns = {Iteration, ClosedDate}, iteration_dtype = ObjectDtype,
        rows = [label_row (py ''Sprint 34''), label_row (py ''no sprint'')]\<rparr> = Inr g \<and>
      preparar_dataframe g = Inr g"
  using example_frame_prepares preparar_idempotent by blast


theorem preparar_keeps_rows_witness:
  "\<exists>g. preparar_dataframe \<lparr>columns = {Iteration, ClosedDate}, iteration_dtype = ObjectDtype,
        rows = [label_row (py ''Sprint 34''), label_row (py ''no sprint'')]\<rparr> = Inr g \<and>
      columns g = {Iteration, ClosedDate} \<union> SPRINT_COLUMNS \<and> length (rows g) = 2"
proof -
  obtain g where g: "preparar_dataframe \<lparr>columns = {Iteration, ClosedDate}, iteration_dtype = ObjectDtype,
        rows = [label_row (py ''Sprint 34''), label_row (py ''no sprint'')]\<rparr> = Inr g"
    using example_frame_prepares by blast
  have m: "map iteration (rows g) = [Some (py ''Sprint 34''), Some (py ''no sprint'')]"
    and c: "columns g = {Iteration, ClosedDate} \<union> SPRINT_COLUMNS"
    using preparar_keeps_rows [OF g] by (simp_all add: label_row_def)
  have "length (rows g) = length (map iteration (rows g))" by simp
  also have "\<dots> = 2" by (simp only: m) simp
  finally show ?thesis using g c by blast
qed
end
