(* ===== verification/Kpis.thy ===== *)
theory Kpis
  imports Frame
begin

text \<open>
  The four tactical KPIs of \<open>calcular_kpis\<close> (\<open>src/frontend/kpi_engine.py\<close>,
  lines 49--135) on the frame model of theory \<open>Frame\<close>. Each calculator is
  one definition, in the source's order, with the source's guards:
  \<open>dropna(subset=...)\<close> raises \<open>KeyError\<close> naming the absent columns,
  timestamp arithmetic and comparison on a cell that is not a naive
  timestamp raise \<open>TypeError\<close>, a missing value (NaN/NaT) drops the row or
  compares false. KPI values are the exact real numbers the float
  expressions denote; the result dictionaries are records whose optional
  fields are the keys a dictionary may lack.
\<close>

section \<open>Results\<close>

text \<open>The \<open>cor\<close> values \<open>"normal"\<close>, \<open>"off"\<close>, \<open>"inverse"\<close>.\<close>

datatype delta_color = Normal | Off | Inverse

record kpi =
  valor :: real
  unidade :: "pystr option"
  msg :: "pystr option"
  cor :: "delta_color option"
  classificacao :: "pystr option"
  help_text :: "pystr option"

record resultados =
  tempo_medio :: kpi
  implantacao :: kpi
  cronograma :: kpi
  desvio :: kpi

section \<open>Text constants of the source\<close>

definition DIAS :: pystr where "DIAS = py ''dias''"
definition SEM_DADOS :: pystr where "SEM_DADOS = py ''Sem dados''"
definition EPIC :: pystr where "EPIC = py ''Epic''"
definition NAN_STR :: pystr where "NAN_STR = py ''nan''"
definition IMPLANTACAO :: pystr where "IMPLANTACAO = py ''Implanta'' @ [231, 227] @ py ''o''"
definition DESENVOLVIMENTO :: pystr where "DESENVOLVIMENTO = py ''Desenvolvimento''"
definition FOCO_ENTREGA :: pystr where "FOCO_ENTREGA = py ''Foco em Entrega''"
definition FOCO_DESENVOLVIMENTO :: pystr where "FOCO_DESENVOLVIMENTO = py ''Foco em Desenvolvimento''"
definition EQUILIBRIO :: pystr where "EQUILIBRIO = py ''Equil'' @ [237] @ py ''brio''"
definition EXCELENTE :: pystr where "EXCELENTE = py ''Excelente''"
definition RAZOAVEL :: pystr where "RAZOAVEL = py ''Razo'' @ [225] @ py ''vel''"
definition BAIXO_CUMPRIMENTO :: pystr where "BAIXO_CUMPRIMENTO = py ''Baixo Cumprimento''"
definition AJUSTES_NATURAIS :: pystr where "AJUSTES_NATURAIS = py ''Ajustes Naturais''"
definition ALTO_DESVIO :: pystr where "ALTO_DESVIO = py ''Alto Desvio''"

definition HELP_TEMPO :: pystr where
  "HELP_TEMPO = py ''M'' @ [233] @ py ''dia da diferen'' @ [231] @
     py ''a absoluta entre Data Prospectar e Data An'' @ [225] @ py ''lise.''"
definition HELP_CRONOGRAMA :: pystr where
  "HELP_CRONOGRAMA = py ''Entregas no prazo / Total fechado na sprint.''"
definition HELP_DESVIO :: pystr where
  "HELP_DESVIO = py ''Itens Novos / Itens Planejados.''"

text \<open>The degenerate dictionary \<open>{'valor': 0, 'msg': "Sem dados", 'cor': "off"}\<close>.\<close>

definition no_data :: kpi where
  "no_data = \<lparr>valor = 0, unidade = None, msg = Some SEM_DADOS, cor = Some Off,
     classificacao = None, help_text = None\<rparr>"

section \<open>DataFrame operations\<close>

text \<open>\<open>notna\<close> of one cell of a column.\<close>

fun notna :: "column \<Rightarrow> row \<Rightarrow> bool" where
  "notna ClosedDate r = (closedDate r \<noteq> None)"
| "notna ActivatedDate r = (activatedDate r \<noteq> None)"
| "notna CreatedDate r = (createdDate r \<noteq> None)"
| "notna Prospectar r = (prospectar r \<noteq> None)"
| "notna Analise r = (analise r \<noteq> None)"
| "notna Iteration r = (iteration r \<noteq> None)"
| "notna Type r = (item_type r \<noteq> None)"
| "notna TipoSolucao r = (tipoSolucao r \<noteq> None)"
| "notna SprintNum r = (sprint_num r \<noteq> None)"
| "notna SprintEnd r = (sprint_end r \<noteq> None)"
| "notna SprintStart r = (sprint_start r \<noteq> None)"
| "notna SprintEndTol r = (sprint_end_tol r \<noteq> None)"

text \<open>\<open>df.dropna(subset=cols)\<close>: \<open>KeyError\<close> listing the absent columns of the
  subset, else the rows with a value in every column of the subset.\<close>

definition dropna :: "column list \<Rightarrow> frame \<Rightarrow> py_error + row list" where
  "dropna cols f =
     (let missing = filter (\<lambda>c. c \<notin> columns f) cols
      in if missing \<noteq> [] then Inl (KeyError missing)
         else Inr (filter (\<lambda>r. list_all (\<lambda>c. notna c r) cols) (rows f)))"

text \<open>A date cell used in timestamp arithmetic or comparison.\<close>

fun cell_ts :: "dcell \<Rightarrow> py_error + instant" where
  "cell_ts (DNaive t) = Inr t"
| "cell_ts _ = Inl TypeError"

section \<open>1. \<open>tempo_medio\<close> (lines 55--66)\<close>

text \<open>\<open>|prospectar - analise|\<close> of a row in nanoseconds: two naive timestamps,
  or two offset-aware ones compared in UTC; a naive and an aware timestamp,
  or a cell that is not a timestamp, raise \<open>TypeError\<close>.\<close>

fun ts_diff :: "dcell \<Rightarrow> dcell \<Rightarrow> py_error + int" where
  "ts_diff (DNaive p) (DNaive a) = Inr (p - a)"
| "ts_diff (DOffset p op) (DOffset a oa) = Inr ((p - op * NS_PER_SECOND) - (a - oa * NS_PER_SECOND))"
| "ts_diff _ _ = Inl TypeError"

definition analysis_gap :: "row \<Rightarrow> py_error + int" where
  "analysis_gap r =
     (case (prospectar r, analise r) of
        (Some p, Some a) \<Rightarrow> sbind (ts_diff p a) (\<lambda>d. Inr \<bar>d\<bar>)
      | _ \<Rightarrow> Inr 0)"

definition kpi_tempo :: "frame \<Rightarrow> py_error + real" where
  "kpi_tempo f =
     (if Prospectar \<in> columns f \<and> Analise \<in> columns f then
        (let df_analise = filter (\<lambda>r. notna Prospectar r \<and> notna Analise r) (rows f)
         in if df_analise = [] then Inr 0
            else sbind (smap analysis_gap df_analise) (\<lambda>gaps.
                   Inr (sum_list (map (\<lambda>g. real_of_int g / 1000000000) gaps)
                          / real (length gaps) / 86400)))
      else Inr 0)"

definition tempo_result :: "real \<Rightarrow> kpi" where
  "tempo_result v = \<lparr>valor = v, unidade = Some DIAS, msg = None, cor = None,
     classificacao = None, help_text = Some HELP_TEMPO\<rparr>"

definition tempo_medio_kpi :: "frame \<Rightarrow> py_error + kpi" where
  "tempo_medio_kpi f = sbind (kpi_tempo f) (\<lambda>v. Inr (tempo_result v))"

section \<open>2. \<open>implantacao\<close> (lines 68--89)\<close>

text \<open>\<open>astype(str).str.strip().str.title()\<close> of one cell; a missing value
  prints as \<open>nan\<close>.\<close>

definition tipo_norm :: "pystr option \<Rightarrow> pystr" where
  "tipo_norm c = py_title (py_strip (case c of None \<Rightarrow> NAN_STR | Some s \<Rightarrow> s))"

definition classify_implantacao :: "real \<Rightarrow> delta_color \<times> pystr" where
  "classify_implantacao v =
     (if 60 < v then (Normal, FOCO_ENTREGA)
      else if v < 40 then (Inverse, FOCO_DESENVOLVIMENTO)
      else (Off, EQUILIBRIO))"

definition implantacao_msg :: "nat \<Rightarrow> nat \<Rightarrow> pystr" where
  "implantacao_msg qtd_impl qtd_dev =
     show_nat qtd_impl @ py '' Impl. | '' @ show_nat qtd_dev @ py '' Dev.''"

text \<open>Lines 74--87, from the two counts.\<close>

definition implantacao_result :: "nat \<Rightarrow> nat \<Rightarrow> kpi" where
  "implantacao_result qtd_impl qtd_dev =
     (let total = qtd_impl + qtd_dev;
          v = (if 0 < total then real qtd_impl / real total * 100 else 0);
          (c, m) = classify_implantacao v
      in \<lparr>valor = v, unidade = None, msg = Some (implantacao_msg qtd_impl qtd_dev),
          cor = Some c, classificacao = Some m, help_text = None\<rparr>)"

definition implantacao_kpi :: "frame \<Rightarrow> kpi" where
  "implantacao_kpi f =
     (let df_epics = (if Type \<in> columns f then filter (\<lambda>r. item_type r = Some EPIC) (rows f) else []);
          epic_columns = (if Type \<in> columns f then columns f else {})
      in if df_epics \<noteq> [] \<and> TipoSolucao \<in> epic_columns then
           (let tipos = map (\<lambda>r. tipo_norm (tipoSolucao r)) df_epics
            in implantacao_result (length (filter (\<lambda>s. s = IMPLANTACAO) tipos))
                                  (length (filter (\<lambda>s. s = DESENVOLVIMENTO) tipos)))
         else no_data)"

section \<open>3. \<open>cronograma\<close> (lines 91--111)\<close>

text \<open>\<open>closedDate > sprint_end_tol\<close> of a row; NaT compares false.\<close>

definition atrasado :: "row \<Rightarrow> py_error + bool" where
  "atrasado r =
     (case closedDate r of
        None \<Rightarrow> Inr False
      | Some c \<Rightarrow> sbind (cell_ts c) (\<lambda>t.
          Inr (case sprint_end_tol r of None \<Rightarrow> False | Some tol \<Rightarrow> tol < t)))"

definition classify_cronograma :: "real \<Rightarrow> delta_color \<times> pystr" where
  "classify_cronograma v =
     (if 90 \<le> v then (Normal, EXCELENTE)
      else if 70 \<le> v then (Off, RAZOAVEL)
      else (Inverse, BAIXO_CUMPRIMENTO))"

definition ratio_msg :: "pystr \<Rightarrow> nat \<Rightarrow> nat \<Rightarrow> pystr" where
  "ratio_msg m a b = m @ py '' ('' @ show_nat a @ py ''/'' @ show_nat b @ py '')''"

text \<open>Lines 97--109, from the on-time and delivered counts.\<close>

definition cronograma_result :: "nat \<Rightarrow> nat \<Rightarrow> kpi" where
  "cronograma_result concluido_no_prazo total_entregues =
     (let v = real concluido_no_prazo / real total_entregues * 100;
          (c, m) = classify_cronograma v
      in \<lparr>valor = v, unidade = None, msg = Some (ratio_msg m concluido_no_prazo total_entregues),
          cor = Some c, classificacao = Some m, help_text = Some HELP_CRONOGRAMA\<rparr>)"

definition cronograma_kpi :: "frame \<Rightarrow> py_error + kpi" where
  "cronograma_kpi f =
     sbind (dropna [ClosedDate, SprintNum] f) (\<lambda>df_entregues.
       if df_entregues = [] then Inr no_data
       else if SprintEndTol \<notin> columns f then Inl (KeyError [SprintEndTol])
       else sbind (smap atrasado df_entregues) (\<lambda>late.
         Inr (cronograma_result (length (filter Not late)) (length df_entregues))))"

section \<open>4. \<open>desvio\<close> (lines 113--133)\<close>

text \<open>\<open>createdDate < sprint_start\<close> of a row.\<close>

definition planejado :: "row \<Rightarrow> py_error + bool" where
  "planejado r =
     (case (createdDate r, sprint_start r) of
        (Some c, Some s) \<Rightarrow> sbind (cell_ts c) (\<lambda>t. Inr (t < s))
      | _ \<Rightarrow> Inr False)"

definition classify_desvio :: "real \<Rightarrow> delta_color \<times> pystr" where
  "classify_desvio v =
     (if v \<le> 10 then (Normal, EXCELENTE)
      else if v \<le> 30 then (Off, AJUSTES_NATURAIS)
      else (Inverse, ALTO_DESVIO))"

text \<open>Lines 119--131, from the unplanned and planned counts.\<close>

definition desvio_result :: "nat \<Rightarrow> nat \<Rightarrow> kpi" where
  "desvio_result qtd_nao_planejado qtd_planejado =
     (let v = (if 0 < qtd_planejado then real qtd_nao_planejado / real qtd_planejado * 100 else 0);
          (c, m) = classify_desvio v
      in \<lparr>valor = v, unidade = None, msg = Some (ratio_msg m qtd_nao_planejado qtd_planejado),
          cor = Some c, classificacao = Some m, help_text = Some HELP_DESVIO\<rparr>)"

definition desvio_kpi :: "frame \<Rightarrow> py_error + kpi" where
  "desvio_kpi f =
     sbind (dropna [SprintNum, CreatedDate, SprintStart] f) (\<lambda>df_sprint.
       if df_sprint = [] then Inr no_data
       else sbind (smap planejado df_sprint) (\<lambda>planned.
         Inr (desvio_result (length (filter Not planned)) (length (filter id planned)))))"

section \<open>\<open>calcular_kpis\<close>\<close>

definition calcular_kpis :: "frame \<Rightarrow> py_error + resultados" where
  "calcular_kpis f =
     sbind (tempo_medio_kpi f) (\<lambda>t.
     sbind (cronograma_kpi f) (\<lambda>c.
     sbind (desvio_kpi f) (\<lambda>d.
       Inr \<lparr>tempo_medio = t, implantacao = implantacao_kpi f, cronograma = c, desvio = d\<rparr>)))"

section \<open>A record-level reference\<close>

text \<open>
  The KPIs as the spec's design note describes them: for each KPI one
  predicate on a prepared record selects the records it counts, and a
  count, sum or mean over the selected records gives the value. The
  reference reads a date cell as a naive instant or null, and is a function
  of the multiset of records: the order of the rows does not matter.
\<close>

fun naive :: "dcell option \<Rightarrow> instant option" where
  "naive (Some (DNaive t)) = Some t"
| "naive _ = None"

definition analysed :: "row \<Rightarrow> bool" where
  "analysed r \<longleftrightarrow> prospectar r \<noteq> None \<and> analise r \<noteq> None"

definition gap_ns :: "row \<Rightarrow> int" where
  "gap_ns r =
     (case (naive (prospectar r), naive (analise r)) of
        (Some p, Some a) \<Rightarrow> \<bar>p - a\<bar>
      | _ \<Rightarrow> 0)"

definition gap_days :: "row \<Rightarrow> real" where
  "gap_days r = real_of_int (gap_ns r) / real_of_int NS_PER_DAY"

definition tempo_ref :: "column set \<Rightarrow> row multiset \<Rightarrow> real" where
  "tempo_ref cs M =
     (let A = filter_mset analysed M
      in if Prospectar \<in> cs \<and> Analise \<in> cs \<and> A \<noteq> {#}
         then sum_mset (image_mset gap_days A) / real (size A) else 0)"

definition implantacao_ref :: "column set \<Rightarrow> row multiset \<Rightarrow> kpi" where
  "implantacao_ref cs M =
     (let E = filter_mset (\<lambda>r. item_type r = Some EPIC) M
      in if Type \<in> cs \<and> TipoSolucao \<in> cs \<and> E \<noteq> {#}
         then implantacao_result (size (filter_mset (\<lambda>r. tipo_norm (tipoSolucao r) = IMPLANTACAO) E))
                                 (size (filter_mset (\<lambda>r. tipo_norm (tipoSolucao r) = DESENVOLVIMENTO) E))
         else no_data)"

definition delivered :: "row \<Rightarrow> bool" where
  "delivered r \<longleftrightarrow> closedDate r \<noteq> None \<and> sprint_num r \<noteq> None"

definition on_time :: "row \<Rightarrow> bool" where
  "on_time r =
     (case (naive (closedDate r), sprint_end_tol r) of
        (Some c, Some tol) \<Rightarrow> c \<le> tol
      | _ \<Rightarrow> True)"

definition cronograma_ref :: "row multiset \<Rightarrow> kpi" where
  "cronograma_ref M =
     (let D = filter_mset delivered M
      in if D = {#} then no_data else cronograma_result (size (filter_mset on_time D)) (size D))"

definition in_sprint :: "row \<Rightarrow> bool" where
  "in_sprint r \<longleftrightarrow> sprint_num r \<noteq> None \<and> createdDate r \<noteq> None \<and> sprint_start r \<noteq> None"

definition planned :: "row \<Rightarrow> bool" where
  "planned r =
     (case (naive (createdDate r), sprint_start r) of
        (Some c, Some s) \<Rightarrow> c < s
      | _ \<Rightarrow> False)"

definition desvio_ref :: "row multiset \<Rightarrow> kpi" where
  "desvio_ref M =
     (let S = filter_mset in_sprint M
      in if S = {#} then no_data
         else desvio_result (size (filter_mset (\<lambda>r. \<not> planned r) S)) (size (filter_mset planned S)))"

definition kpis_ref :: "column set \<Rightarrow> row multiset \<Rightarrow> resultados" where
  "kpis_ref cs M =
     \<lparr>tempo_medio = tempo_result (tempo_ref cs M), implantacao = implantacao_ref cs M,
      cronograma = cronograma_ref M, desvio = desvio_ref M\<rparr>"

section \<open>Reading the counts back from the messages\<close>

text \<open>\<open>"<label> (<a>/<b>)"\<close>, read from the right.\<close>

definition read_ratio :: "pystr \<Rightarrow> (nat \<times> nat) option" where
  "read_ratio s =
     (let r1 = drop 1 (rev s); bd = takeWhile is_digit r1; r2 = dropWhile is_digit r1;
          r3 = drop 1 r2; ad = takeWhile is_digit r3; r4 = dropWhile is_digit r3
      in if take 1 (rev s) = [41] \<and> bd \<noteq> [] \<and> take 1 r2 = [47] \<and> ad \<noteq> [] \<and> take 2 r4 = [40, 32]
         then Some (read_nat (rev ad), read_nat (rev bd)) else None)"

text \<open>\<open>"<a> Impl. | <b> Dev."\<close>, read from the left.\<close>

definition read_impl :: "pystr \<Rightarrow> (nat \<times> nat) option" where
  "read_impl s =
     (let ad = takeWhile is_digit s; s1 = dropWhile is_digit s;
          s2 = drop 9 s1; bd = takeWhile is_digit s2; s3 = dropWhile is_digit s2
      in if ad \<noteq> [] \<and> bd \<noteq> [] \<and> take 9 s1 = py '' Impl. | '' \<and> s3 = py '' Dev.''
         then Some (read_nat ad, read_nat bd) else None)"

section \<open>Example records\<close>

text \<open>Swapping the two analysis dates of a record (for the symmetry of
  \<open>tempo_medio\<close>), and small records and frames for the spec's scenarios.\<close>

definition swap_analysis :: "row \<Rightarrow> row" where
  "swap_analysis r = r\<lparr>prospectar := analise r, analise := prospectar r\<rparr>"

definition ex_frame :: "column set \<Rightarrow> row list \<Rightarrow> frame" where
  "ex_frame cs rs = \<lparr>columns = cs, iteration_dtype = ObjectDtype, rows = rs\<rparr>"

definition ex_epic :: "pystr \<Rightarrow> row" where
  "ex_epic t = label_row (py ''Sprint 34'')\<lparr>item_type := Some EPIC, tipoSolucao := Some t\<rparr>"

definition ex_closed :: "instant \<Rightarrow> instant \<Rightarrow> row" where
  "ex_closed c tol = label_row (py ''Sprint 34'')\<lparr>closedDate := Some (DNaive c), sprint_num := Some 34,
     sprint_end_tol := Some tol\<rparr>"

definition ex_created :: "instant \<Rightarrow> instant \<Rightarrow> row" where
  "ex_created c st = label_row (py ''Sprint 34'')\<lparr>createdDate := Some (DNaive c), sprint_num := Some 34,
     sprint_start := Some st\<rparr>"

section \<open>Lemmas on the calculators\<close>

lemma normalized_cases:
  assumes "normalized_cell c"
  obtains "c = None" | t where "c = Some (DNaive t)"
  using assms by (cases c rule: naive.cases) (auto simp: normalized_cell_def)

lemma analysis_gap_ok:
  assumes "normalized_cell (prospectar r)" "normalized_cell (analise r)"
  shows "analysis_gap r = Inr (gap_ns r)"
  using assms by (auto elim!: normalized_cases simp: analysis_gap_def gap_ns_def)

lemma atrasado_ok:
  assumes "normalized_cell (closedDate r)"
  shows "atrasado r = Inr (\<not> on_time r)"
  using assms by (cases rule: normalized_cases) (auto simp: atrasado_def on_time_def split: option.splits)

lemma planejado_ok:
  assumes "normalized_cell (createdDate r)"
  shows "planejado r = Inr (planned r)"
  using assms by (cases rule: normalized_cases) (auto simp: planejado_def planned_def split: option.splits)

lemma ts_diff_Inl: "ts_diff p a = Inl e \<Longrightarrow> e = TypeError"
  by (induction p a rule: ts_diff.induct) auto

lemma cell_ts_Inl: "cell_ts c = Inl e \<Longrightarrow> e = TypeError"
  by (cases c) auto

lemma row_tests_Inl:
  "analysis_gap r = Inl e \<Longrightarrow> e = TypeError"
  "atrasado r = Inl e \<Longrightarrow> e = TypeError"
  "planejado r = Inl e \<Longrightarrow> e = TypeError"
  by (auto simp: analysis_gap_def atrasado_def planejado_def sbind_eq_Inl
           dest: ts_diff_Inl cell_ts_Inl split: option.splits)

lemma dropna_Inr:
  "set cols \<subseteq> columns f \<Longrightarrow>
   dropna cols f = Inr (filter (\<lambda>r. list_all (\<lambda>c. notna c r) cols) (rows f))"
  by (auto simp: dropna_def filter_empty_conv)

lemma dropna_Inl:
  "dropna cols f = Inl e \<longleftrightarrow>
   filter (\<lambda>c. c \<notin> columns f) cols \<noteq> [] \<and> e = KeyError (filter (\<lambda>c. c \<notin> columns f) cols)"
  by (auto simp: dropna_def Let_def)

lemma dropna_Inl_KeyError: "dropna cols f = Inl e \<Longrightarrow> \<exists>cs. e = KeyError cs"
  by (auto simp: dropna_def Let_def split: if_splits)

lemma mean_gap:
  "sum_list (map (\<lambda>g. real_of_int g / 1000000000) (map gap_ns xs)) / real (length xs) / 86400 =
   sum_mset (image_mset gap_days (mset xs)) / real (size (mset xs))"
proof -
  define S where "S = (\<Sum>r\<leftarrow>xs. real_of_int (gap_ns r))"
  have l: "sum_list (map (\<lambda>g. real_of_int g / 1000000000) (map gap_ns xs)) = S / 1000000000"
    by (simp add: S_def comp_def sum_list_divide)
  have r: "sum_mset (image_mset gap_days (mset xs)) = S / 86400000000000"
    by (simp add: S_def NS_PER_DAY_def sum_mset_image_mset gap_days_def [abs_def] sum_list_divide)
  show ?thesis
    unfolding l r by (simp add: divide_divide_eq_left mult_ac)
qed

lemma prepared_normalized:
  "prepared f \<Longrightarrow> r \<in> set (rows f) \<Longrightarrow> col \<in> set cols_data \<Longrightarrow> col \<in> columns f \<Longrightarrow>
   normalized_cell (get_date col r)"
  by (auto simp: prepared_def row_prepared_def)

lemma prepared_sprint_columns:
  "prepared f \<Longrightarrow> Iteration \<in> columns f \<Longrightarrow> SPRINT_COLUMNS \<subseteq> columns f"
  by (simp add: prepared_def)

lemma dropna_Inr_iff:
  "dropna cols f = Inr xs \<longleftrightarrow>
   set cols \<subseteq> columns f \<and> xs = filter (\<lambda>r. list_all (\<lambda>c. notna c r) cols) (rows f)"
  by (auto simp: dropna_def Let_def filter_empty_conv)

lemma smap_analysis_gap_prepared:
  assumes "prepared f" "Prospectar \<in> columns f" "Analise \<in> columns f" "set xs \<subseteq> set (rows f)"
  shows "smap analysis_gap xs = Inr (map gap_ns xs)"
proof (rule smap_cong_ok, rule analysis_gap_ok)
  fix r assume "r \<in> set xs"
  then have r: "r \<in> set (rows f)" using assms(4) by blast
  show "normalized_cell (prospectar r)"
    using prepared_normalized [OF assms(1) r, of Prospectar] assms(2) by (simp add: cols_data_def)
  show "normalized_cell (analise r)"
    using prepared_normalized [OF assms(1) r, of Analise] assms(3) by (simp add: cols_data_def)
qed

lemma smap_atrasado_prepared:
  assumes "prepared f" "ClosedDate \<in> columns f" "set xs \<subseteq> set (rows f)"
  shows "smap atrasado xs = Inr (map (\<lambda>r. \<not> on_time r) xs)"
proof (rule smap_cong_ok, rule atrasado_ok)
  fix r assume "r \<in> set xs"
  then have r: "r \<in> set (rows f)" using assms(3) by blast
  show "normalized_cell (closedDate r)"
    using prepared_normalized [OF assms(1) r, of ClosedDate] assms(2) by (simp add: cols_data_def)
qed

lemma smap_planejado_prepared:
  assumes "prepared f" "CreatedDate \<in> columns f" "set xs \<subseteq> set (rows f)"
  shows "smap planejado xs = Inr (map planned xs)"
proof (rule smap_cong_ok, rule planejado_ok)
  fix r assume "r \<in> set xs"
  then have r: "r \<in> set (rows f)" using assms(3) by blast
  show "normalized_cell (createdDate r)"
    using prepared_normalized [OF assms(1) r, of CreatedDate] assms(2) by (simp add: cols_data_def)
qed

section \<open>The calculators implement the reference\<close>

lemma kpi_tempo_ref:
  assumes "prepared f"
  shows "kpi_tempo f = Inr (tempo_ref (columns f) (mset (rows f)))"
proof (cases "Prospectar \<in> columns f \<and> Analise \<in> columns f")
  case False
  then show ?thesis by (auto simp: kpi_tempo_def tempo_ref_def)
next
  case True
  define xs where "xs = filter (\<lambda>r. notna Prospectar r \<and> notna Analise r) (rows f)"
  have A: "filter_mset analysed (mset (rows f)) = mset xs"
    by (simp add: xs_def analysed_def [abs_def])
  show ?thesis
  proof (cases "xs = []")
    case True
    with \<open>Prospectar \<in> columns f \<and> Analise \<in> columns f\<close> A show ?thesis
      unfolding kpi_tempo_def Let_def xs_def [symmetric] by (simp add: tempo_ref_def)
  next
    case False
    have "smap analysis_gap xs = Inr (map gap_ns xs)"
      using assms True by (rule_tac smap_analysis_gap_prepared) (auto simp: xs_def)
    with False True
    have "kpi_tempo f = Inr (sum_list (map (\<lambda>g. real_of_int g / 1000000000) (map gap_ns xs))
                               / real (length (map gap_ns xs)) / 86400)"
      unfolding kpi_tempo_def Let_def xs_def [symmetric] by simp
    also have "\<dots> = Inr (tempo_ref (columns f) (mset (rows f)))"
      unfolding length_map mean_gap using False True A by (simp add: tempo_ref_def)
    finally show ?thesis .
  qed
qed

lemma implantacao_kpi_ref: "implantacao_kpi f = implantacao_ref (columns f) (mset (rows f))"
  by (auto simp: implantacao_kpi_def implantacao_ref_def Let_def filter_map comp_def
      filter_filter_mset filter_empty_conv)

lemma cronograma_kpi_ref:
  assumes "prepared f" "ClosedDate \<in> columns f" "SprintNum \<in> columns f" "SprintEndTol \<in> columns f"
  shows "cronograma_kpi f = Inr (cronograma_ref (mset (rows f)))"
proof -
  define xs where "xs = filter delivered (rows f)"
  have drop: "dropna [ClosedDate, SprintNum] f = Inr xs"
    using assms(2,3) by (simp add: dropna_Inr xs_def delivered_def [abs_def])
  have "smap atrasado xs = Inr (map (\<lambda>r. \<not> on_time r) xs)"
    using assms(1,2) by (rule smap_atrasado_prepared) (auto simp: xs_def)
  moreover have "filter_mset delivered (mset (rows f)) = mset xs" by (simp add: xs_def)
  ultimately show ?thesis using drop assms(4)
    unfolding cronograma_ref_def Let_def
    by (simp add: cronograma_kpi_def filter_map comp_def)
qed

lemma desvio_kpi_ref:
  assumes "prepared f" "SprintNum \<in> columns f" "CreatedDate \<in> columns f" "SprintStart \<in> columns f"
  shows "desvio_kpi f = Inr (desvio_ref (mset (rows f)))"
proof -
  define xs where "xs = filter in_sprint (rows f)"
  have drop: "dropna [SprintNum, CreatedDate, SprintStart] f = Inr xs"
    using assms(2-4) by (simp add: dropna_Inr xs_def in_sprint_def [abs_def])
  have "smap planejado xs = Inr (map planned xs)"
    using assms(1,3) by (rule smap_planejado_prepared) (auto simp: xs_def)
  moreover have "filter_mset in_sprint (mset (rows f)) = mset xs" by (simp add: xs_def)
  ultimately show ?thesis using drop
    unfolding desvio_ref_def Let_def
    by (simp add: desvio_kpi_def filter_map comp_def)
qed

lemma calcular_kpis_ref:
  assumes "prepared f" "ClosedDate \<in> columns f" "CreatedDate \<in> columns f" "Iteration \<in> columns f"
  shows "calcular_kpis f = Inr (kpis_ref (columns f) (mset (rows f)))"
proof -
  have sc: "SprintNum \<in> columns f" "SprintEndTol \<in> columns f" "SprintStart \<in> columns f"
    using prepared_sprint_columns [OF assms(1,4)] by (auto simp: SPRINT_COLUMNS_def)
  show ?thesis
    using kpi_tempo_ref [OF assms(1)] cronograma_kpi_ref [OF assms(1,2) sc(1,2)]
      desvio_kpi_ref [OF assms(1) sc(1) assms(3) sc(3)]
    by (simp add: calcular_kpis_def tempo_medio_kpi_def kpis_ref_def implantacao_kpi_ref)
qed

section \<open>The calculators raise only \<open>KeyError\<close> on prepared frames\<close>

lemma row_tests_total:
  "normalized_cell (prospectar r) \<Longrightarrow> normalized_cell (analise r) \<Longrightarrow> \<exists>g. analysis_gap r = Inr g"
  "normalized_cell (closedDate r) \<Longrightarrow> \<exists>b. atrasado r = Inr b"
  "normalized_cell (createdDate r) \<Longrightarrow> \<exists>b. planejado r = Inr b"
  by (auto elim!: normalized_cases simp: analysis_gap_def atrasado_def planejado_def split: option.split)

lemma prepared_cell:
  assumes "prepared f" "r \<in> set (rows f)"
  shows "ClosedDate \<in> columns f \<Longrightarrow> normalized_cell (closedDate r)"
    and "CreatedDate \<in> columns f \<Longrightarrow> normalized_cell (createdDate r)"
    and "Prospectar \<in> columns f \<Longrightarrow> normalized_cell (prospectar r)"
    and "Analise \<in> columns f \<Longrightarrow> normalized_cell (analise r)"
  using prepared_normalized [OF assms, of ClosedDate] prepared_normalized [OF assms, of CreatedDate]
    prepared_normalized [OF assms, of Prospectar] prepared_normalized [OF assms, of Analise]
  by (simp_all add: cols_data_def)

lemma kpi_tempo_total:
  assumes "prepared f"
  shows "\<exists>v. kpi_tempo f = Inr v"
proof -
  have "\<exists>gs. smap analysis_gap (filter (\<lambda>r. notna Prospectar r \<and> notna Analise r) (rows f)) = Inr gs"
    if "Prospectar \<in> columns f" "Analise \<in> columns f"
    using prepared_cell [OF assms] row_tests_total(1) that by (auto simp: smap_Inr_iff_all)
  then show ?thesis by (auto simp: kpi_tempo_def Let_def)
qed

lemma cronograma_kpi_KeyError:
  assumes "prepared f" "cronograma_kpi f = Inl e"
  shows "\<exists>cs. e = KeyError cs"
proof (cases "dropna [ClosedDate, SprintNum] f")
  case (Inl e')
  moreover have "e = e'" using assms(2) Inl by (simp add: cronograma_kpi_def)
  ultimately show ?thesis by (blast dest: dropna_Inl_KeyError)
next
  case (Inr xs)
  then have "ClosedDate \<in> columns f" "set xs \<subseteq> set (rows f)" by (auto simp: dropna_Inr_iff)
  then have "\<exists>ls. smap atrasado xs = Inr ls"
    using prepared_cell(1) [OF assms(1)] row_tests_total(2) by (auto simp: smap_Inr_iff_all)
  with Inr assms(2) show ?thesis by (auto simp: cronograma_kpi_def split: if_splits)
qed

lemma desvio_kpi_KeyError:
  assumes "prepared f" "desvio_kpi f = Inl e"
  shows "\<exists>cs. e = KeyError cs"
proof (cases "dropna [SprintNum, CreatedDate, SprintStart] f")
  case (Inl e')
  moreover have "e = e'" using assms(2) Inl by (simp add: desvio_kpi_def)
  ultimately show ?thesis by (blast dest: dropna_Inl_KeyError)
next
  case (Inr xs)
  then have "CreatedDate \<in> columns f" "set xs \<subseteq> set (rows f)" by (auto simp: dropna_Inr_iff)
  then have "\<exists>ps. smap planejado xs = Inr ps"
    using prepared_cell(2) [OF assms(1)] row_tests_total(3) by (auto simp: smap_Inr_iff_all)
  with Inr assms(2) show ?thesis by (auto simp: desvio_kpi_def split: if_splits)
qed

lemma cronograma_kpi_total:
  assumes "prepared f" "ClosedDate \<in> columns f" "SprintNum \<in> columns f" "SprintEndTol \<in> columns f"
  shows "\<exists>k. cronograma_kpi f = Inr k"
proof -
  have "\<exists>ls. smap atrasado (filter (\<lambda>r. list_all (\<lambda>c. notna c r) [ClosedDate, SprintNum]) (rows f)) = Inr ls"
    using prepared_cell(1) [OF assms(1) _ assms(2)] row_tests_total(2) by (auto simp: smap_Inr_iff_all)
  then show ?thesis using assms(2-4) by (auto simp: cronograma_kpi_def dropna_Inr)
qed

lemma desvio_kpi_total:
  assumes "prepared f" "SprintNum \<in> columns f" "CreatedDate \<in> columns f" "SprintStart \<in> columns f"
  shows "\<exists>k. desvio_kpi f = Inr k"
proof -
  have "\<exists>ps. smap planejado (filter (\<lambda>r. list_all (\<lambda>c. notna c r) [SprintNum, CreatedDate, SprintStart]) (rows f)) = Inr ps"
    using prepared_cell(2) [OF assms(1) _ assms(3)] row_tests_total(3) by (auto simp: smap_Inr_iff_all)
  then show ?thesis using assms(2-4) by (auto simp: desvio_kpi_def dropna_Inr)
qed

section \<open>Reading the messages back\<close>

lemma digits_then:
  assumes "xs = [] \<or> \<not> is_digit (hd xs)"
  shows "takeWhile is_digit (show_nat n @ xs) = show_nat n"
    and "dropWhile is_digit (show_nat n @ xs) = xs"
  using takeWhile_dropWhile_prefix [where P = is_digit and ys = "show_nat n", OF _ assms]
    show_nat_digits [of n] by simp_all

lemma rev_digits_then:
  assumes "xs = [] \<or> \<not> is_digit (hd xs)"
  shows "takeWhile is_digit (rev (show_nat n) @ xs) = rev (show_nat n)"
    and "dropWhile is_digit (rev (show_nat n) @ xs) = xs"
  using takeWhile_dropWhile_prefix [where P = is_digit and ys = "rev (show_nat n)", OF _ assms]
    show_nat_digits [of n] by simp_all

lemma read_ratio_msg: "read_ratio (ratio_msg m a b) = Some (a, b)"
proof -
  have r: "rev (ratio_msg m a b) = 41 # rev (show_nat b) @ 47 # rev (show_nat a) @ [40, 32] @ rev m"
    by (simp add: ratio_msg_def)
  show ?thesis
    unfolding read_ratio_def r Let_def
    using show_nat_digits [of a] show_nat_digits [of b]
    by (simp add: rev_digits_then is_digit_def read_show_nat)
qed

lemma read_impl_msg: "read_impl (implantacao_msg a b) = Some (a, b)"
  using show_nat_digits [of a] show_nat_digits [of b]
  by (simp add: read_impl_def implantacao_msg_def Let_def digits_then is_digit_def read_show_nat)

section \<open>Shapes of the results\<close>

lemma implantacao_result_fields:
  "valor (implantacao_result a b) = (if 0 < a + b then real a / real (a + b) * 100 else 0) \<and>
   cor (implantacao_result a b) = Some (fst (classify_implantacao (valor (implantacao_result a b)))) \<and>
   msg (implantacao_result a b) = Some (implantacao_msg a b)"
  by (simp add: implantacao_result_def Let_def split: prod.split)

lemma cronograma_result_fields:
  "valor (cronograma_result a b) = real a / real b * 100 \<and>
   cor (cronograma_result a b) = Some (fst (classify_cronograma (valor (cronograma_result a b)))) \<and>
   classificacao (cronograma_result a b) = Some (snd (classify_cronograma (valor (cronograma_result a b)))) \<and>
   msg (cronograma_result a b) =
     Some (ratio_msg (snd (classify_cronograma (valor (cronograma_result a b)))) a b)"
  by (simp add: cronograma_result_def Let_def split: prod.split)

lemma desvio_result_fields:
  "valor (desvio_result a b) = (if 0 < b then real a / real b * 100 else 0) \<and>
   cor (desvio_result a b) = Some (fst (classify_desvio (valor (desvio_result a b)))) \<and>
   classificacao (desvio_result a b) = Some (snd (classify_desvio (valor (desvio_result a b)))) \<and>
   msg (desvio_result a b) = Some (ratio_msg (snd (classify_desvio (valor (desvio_result a b)))) a b)"
  by (simp add: desvio_result_def Let_def split: prod.split)

lemma results_not_no_data [simp]:
  "implantacao_result a b \<noteq> no_data" "cronograma_result a b \<noteq> no_data" "desvio_result a b \<noteq> no_data"
  by (simp_all add: implantacao_result_def cronograma_result_def desvio_result_def no_data_def
      Let_def split: prod.split)

lemma implantacao_kpi_cases:
  "implantacao_kpi f = no_data \<or> (\<exists>a b. implantacao_kpi f = implantacao_result a b)"
  by (auto simp: implantacao_kpi_def Let_def)

lemma cronograma_kpi_Inr:
  assumes "cronograma_kpi f = Inr k"
  shows "k = no_data \<or> (\<exists>a b. a \<le> b \<and> 0 < b \<and> k = cronograma_result a b)"
proof (cases "dropna [ClosedDate, SprintNum] f")
  case (Inl e)
  then show ?thesis using assms by (simp add: cronograma_kpi_def)
next
  case (Inr xs)
  show ?thesis
  proof (cases "xs = []")
    case True
    then show ?thesis using assms Inr by (simp add: cronograma_kpi_def)
  next
    case False
    then obtain late where late: "smap atrasado xs = Inr late"
      and k: "k = cronograma_result (length (filter Not late)) (length xs)"
      using assms Inr by (auto simp: cronograma_kpi_def split: if_splits)
    have "length (filter Not late) \<le> length xs"
      using smap_Inr_length [OF late] length_filter_le [of Not late] by simp
    with k False show ?thesis by auto
  qed
qed

lemma desvio_kpi_Inr:
  assumes "desvio_kpi f = Inr k"
  shows "k = no_data \<or> (\<exists>a b. k = desvio_result a b)"
  using assms by (auto simp: desvio_kpi_def sbind_eq_Inr split: if_splits)

lemma analysis_gap_nonneg: "analysis_gap r = Inr g \<Longrightarrow> 0 \<le> g"
  by (auto simp: analysis_gap_def split: option.splits)

lemma kpi_tempo_nonneg:
  assumes "kpi_tempo f = Inr v"
  shows "0 \<le> v"
proof -
  have "0 \<le> sum_list (map (\<lambda>g. real_of_int g / 1000000000) gaps)"
    if "smap analysis_gap xs = Inr gaps" for xs gaps
    using smap_Inr_elem [OF that] analysis_gap_nonneg by (intro sum_list_nonneg) fastforce
  with assms show ?thesis by (auto simp: kpi_tempo_def Let_def split: if_splits)
qed

lemma calcular_kpis_Inr:
  "calcular_kpis f = Inr res \<longleftrightarrow>
   (\<exists>t c d. tempo_medio_kpi f = Inr t \<and> cronograma_kpi f = Inr c \<and> desvio_kpi f = Inr d \<and>
      res = \<lparr>tempo_medio = t, implantacao = implantacao_kpi f, cronograma = c, desvio = d\<rparr>)"
  by (auto simp: calcular_kpis_def)

lemma calcular_kpis_prepared_Inl:
  assumes "prepared f" "calcular_kpis f = Inl e"
  shows "\<exists>cs. e = KeyError cs"
proof -
  obtain v where "kpi_tempo f = Inr v" using kpi_tempo_total [OF assms(1)] by blast
  then have "cronograma_kpi f = Inl e \<or> desvio_kpi f = Inl e"
    using assms(2) by (auto simp: calcular_kpis_def tempo_medio_kpi_def sbind_eq_Inl)
  then show ?thesis
    using cronograma_kpi_KeyError [OF assms(1)] desvio_kpi_KeyError [OF assms(1)] by blast
qed

lemma dropna_delivered:
  "ClosedDate \<in> columns f \<Longrightarrow> SprintNum \<in> columns f \<Longrightarrow>
   dropna [ClosedDate, SprintNum] f = Inr (filter delivered (rows f))"
  by (simp add: dropna_Inr delivered_def [abs_def])

lemma dropna_in_sprint:
  "SprintNum \<in> columns f \<Longrightarrow> CreatedDate \<in> columns f \<Longrightarrow> SprintStart \<in> columns f \<Longrightarrow>
   dropna [SprintNum, CreatedDate, SprintStart] f = Inr (filter in_sprint (rows f))"
  by (simp add: dropna_Inr in_sprint_def [abs_def])

section \<open>Lemmas for the properties\<close>



lemma analysis_gap_swap: "analysis_gap (swap_analysis r) = analysis_gap r"
proof -
  have "sbind (ts_diff a p) (\<lambda>d. Inr \<bar>d\<bar>) = sbind (ts_diff p a) (\<lambda>d. Inr \<bar>d\<bar>)" for p a
    by (cases p; cases a) (simp_all add: abs_minus_commute)
  then show ?thesis by (simp add: analysis_gap_def swap_analysis_def split: option.split)
qed

lemma tipo_norm_labels:
  "tipo_norm (Some IMPLANTACAO) = IMPLANTACAO" "tipo_norm (Some DESENVOLVIMENTO) = DESENVOLVIMENTO"
  "IMPLANTACAO \<noteq> DESENVOLVIMENTO" "DESENVOLVIMENTO \<noteq> IMPLANTACAO"
  by (simp_all add: tipo_norm_def py_strip_def py_isspace_def WHITESPACE_def IMPLANTACAO_def
      DESENVOLVIMENTO_def py_title_def case_defs lowers_by_shift_def titles_by_shift_def)

lemma cronograma_one_on_time:
  "cronograma_kpi (ex_frame {ClosedDate, SprintNum, SprintEndTol} [ex_closed 5 5]) = Inr (cronograma_result 1 1)"
  by (simp add: cronograma_kpi_def dropna_def ex_frame_def ex_closed_def label_row_def atrasado_def)

lemma desvio_one_planned:
  "desvio_kpi (ex_frame {SprintNum, CreatedDate, SprintStart} [ex_created 1 5]) = Inr (desvio_result 0 1)"
  by (simp add: desvio_kpi_def dropna_def ex_frame_def ex_created_def label_row_def planejado_def)

lemma label_frame_prepares:
  "\<exists>g. preparar_dataframe (ex_frame cs [label_row (py ''Sprint 34'')]) = Inr g"
proof -
  have "\<not> (\<exists>e. preparar_dataframe (ex_frame cs [label_row (py ''Sprint 34'')]) = Inl e)"
    by (simp add: preparar_Inl_iff label_eval ex_frame_def)
  then show ?thesis by (meson sum.exhaust)
qed

lemma tipo_norm_pad:
  assumes "list_all py_isspace a" "list_all py_isspace b"
  shows "tipo_norm (map_option (\<lambda>t. a @ map to_lower t @ b) c) = tipo_norm c"
  using assms by (cases c) (simp_all add: tipo_norm_def py_strip_pad py_strip_map_lower py_title_ignores_case)

section \<open>Properties of the KPIs\<close>

text \<open>C7: \<open>tempo_medio\<close> is symmetric: swapping the prospect and analysis
  dates of every record leaves the result, exception included, unchanged.\<close>

theorem tempo_medio_symmetric:
  "tempo_medio_kpi (f\<lparr>rows := map swap_analysis (rows f)\<rparr>) = tempo_medio_kpi f"
proof -
  have "filter (\<lambda>r. notna Prospectar r \<and> notna Analise r) (map swap_analysis xs) =
        map swap_analysis (filter (\<lambda>r. notna Prospectar r \<and> notna Analise r) xs)" for xs
    by (simp add: filter_map comp_def swap_analysis_def conj_commute)
  then show ?thesis
    by (simp add: tempo_medio_kpi_def kpi_tempo_def Let_def smap_map analysis_gap_swap)
qed

text \<open>C4: the tolerance is inclusive: when every delivered record was closed
  exactly at its \<open>sprint_end_tol\<close>, \<open>cronograma\<close> is 100 and its tier is
  \<open>normal\<close>.\<close>

theorem cronograma_tolerance_inclusive:
  assumes "ClosedDate \<in> columns f" "SprintNum \<in> columns f" "SprintEndTol \<in> columns f"
    and "filter delivered (rows f) \<noteq> []"
    and "list_all (\<lambda>r. closedDate r = map_option DNaive (sprint_end_tol r)) (filter delivered (rows f))"
  shows "\<exists>k. cronograma_kpi f = Inr k \<and> valor k = 100 \<and> cor k = Some Normal"
proof -
  let ?xs = "filter delivered (rows f)"
  have "smap atrasado ?xs = Inr (map (\<lambda>r. False) ?xs)"
  proof (rule smap_cong_ok)
    fix r assume r: "r \<in> set ?xs"
    then have "closedDate r = map_option DNaive (sprint_end_tol r)" "closedDate r \<noteq> None"
      using assms(5) by (auto simp: list_all_iff delivered_def)
    then show "atrasado r = Inr False" by (auto simp: atrasado_def)
  qed
  then have "cronograma_kpi f = Inr (cronograma_result (length ?xs) (length ?xs))"
    using assms(3,4) by (simp add: cronograma_kpi_def dropna_delivered [OF assms(1,2)] filter_map comp_def)
  moreover have "valor (cronograma_result (length ?xs) (length ?xs)) = 100"
    using assms(4) by (simp add: cronograma_result_fields)
  ultimately show ?thesis
    by (simp add: cronograma_result_fields classify_cronograma_def)
qed

theorem cronograma_tolerance_inclusive_witness:
  "cronograma_kpi (ex_frame {ClosedDate, SprintNum, SprintEndTol} [ex_closed 5 5, ex_closed 7 7]) =
     Inr (cronograma_result 2 2) \<and> valor (cronograma_result 2 2) = 100 \<and>
   cor (cronograma_result 2 2) = Some Normal"
proof -
  have "\<exists>k. cronograma_kpi (ex_frame {ClosedDate, SprintNum, SprintEndTol} [ex_closed 5 5, ex_closed 7 7]) = Inr k \<and>
          valor k = 100 \<and> cor k = Some Normal"
    by (rule cronograma_tolerance_inclusive) (simp_all add: ex_frame_def ex_closed_def label_row_def delivered_def)
  moreover have "cronograma_kpi (ex_frame {ClosedDate, SprintNum, SprintEndTol} [ex_closed 5 5, ex_closed 7 7]) =
     Inr (cronograma_result 2 2)"
    by (simp add: cronograma_kpi_def dropna_def ex_frame_def ex_closed_def label_row_def atrasado_def eval_nat_numeral)
  ultimately show ?thesis by auto
qed

text \<open>C5: \<open>desvio\<close> reports 0 and \<open>Excelente\<close> when no record of the sprint
  was planned, however many unplanned records there are: the guard
  \<open>qtd_planejado > 0\<close> turns the largest drift into the best tier.\<close>

theorem desvio_no_planned_is_excellent:
  assumes "SprintNum \<in> columns f" "CreatedDate \<in> columns f" "SprintStart \<in> columns f"
    and "filter in_sprint (rows f) \<noteq> []"
    and "list_all (\<lambda>r. \<exists>c st. createdDate r = Some (DNaive c) \<and> sprint_start r = Some st \<and> st \<le> c)
           (filter in_sprint (rows f))"
  shows "\<exists>k. desvio_kpi f = Inr k \<and> valor k = 0 \<and> cor k = Some Normal \<and> classificacao k = Some EXCELENTE"
proof -
  let ?xs = "filter in_sprint (rows f)"
  have "smap planejado ?xs = Inr (map (\<lambda>r. False) ?xs)"
  proof (rule smap_cong_ok)
    fix r assume "r \<in> set ?xs"
    then obtain c st where "createdDate r = Some (DNaive c)" "sprint_start r = Some st" "st \<le> c"
      using assms(5) by (auto simp: list_all_iff)
    then show "planejado r = Inr False" by (simp add: planejado_def)
  qed
  then have "desvio_kpi f = Inr (desvio_result (length ?xs) 0)"
    using assms(4) by (simp add: desvio_kpi_def dropna_in_sprint [OF assms(1-3)] filter_map comp_def)
  then show ?thesis
    by (simp add: desvio_result_fields classify_desvio_def)
qed

theorem desvio_no_planned_is_excellent_witness:
  "desvio_kpi (ex_frame {SprintNum, CreatedDate, SprintStart} [ex_created 9 5, ex_created 8 5, ex_created 7 5]) =
     Inr (desvio_result 3 0) \<and> valor (desvio_result 3 0) = 0 \<and> cor (desvio_result 3 0) = Some Normal"
proof -
  have "\<exists>k. desvio_kpi (ex_frame {SprintNum, CreatedDate, SprintStart}
             [ex_created 9 5, ex_created 8 5, ex_created 7 5]) = Inr k \<and>
          valor k = 0 \<and> cor k = Some Normal \<and> classificacao k = Some EXCELENTE"
    by (rule desvio_no_planned_is_excellent) (simp_all add: ex_frame_def ex_created_def label_row_def in_sprint_def)
  moreover have "desvio_kpi (ex_frame {SprintNum, CreatedDate, SprintStart}
             [ex_created 9 5, ex_created 8 5, ex_created 7 5]) = Inr (desvio_result 3 0)"
    by (simp add: desvio_kpi_def dropna_def ex_frame_def ex_created_def label_row_def planejado_def eval_nat_numeral)
  ultimately show ?thesis by auto
qed

text \<open>C6: the tiers of \<open>implantacao\<close> keep the source's strict comparisons:
  \<open>normal\<close> above 60, \<open>inverse\<close> below 40, and \<open>off\<close> (Equilibrio) on the closed
  range from 40 to 60, both ends included.\<close>

theorem implantacao_tiers:
  assumes "implantacao_kpi f \<noteq> no_data"
  shows "(cor (implantacao_kpi f) = Some Normal \<longleftrightarrow> 60 < valor (implantacao_kpi f)) \<and>
         (cor (implantacao_kpi f) = Some Off \<longleftrightarrow> 40 \<le> valor (implantacao_kpi f) \<and> valor (implantacao_kpi f) \<le> 60) \<and>
         (cor (implantacao_kpi f) = Some Inverse \<longleftrightarrow> valor (implantacao_kpi f) < 40)"
proof -
  obtain a b where "implantacao_kpi f = implantacao_result a b"
    using implantacao_kpi_cases [of f] assms by blast
  then show ?thesis
    by (simp only: implantacao_result_fields option.inject) (simp add: classify_implantacao_def)
qed

theorem implantacao_tiers_witness:
  "implantacao_kpi (ex_frame {Type, TipoSolucao} [ex_epic IMPLANTACAO, ex_epic DESENVOLVIMENTO,
      ex_epic IMPLANTACAO, ex_epic DESENVOLVIMENTO, ex_epic IMPLANTACAO]) \<noteq> no_data \<and>
   valor (implantacao_kpi (ex_frame {Type, TipoSolucao} [ex_epic IMPLANTACAO, ex_epic DESENVOLVIMENTO,
      ex_epic IMPLANTACAO, ex_epic DESENVOLVIMENTO, ex_epic IMPLANTACAO])) = 60 \<and>
   cor (implantacao_kpi (ex_frame {Type, TipoSolucao} [ex_epic IMPLANTACAO, ex_epic DESENVOLVIMENTO,
      ex_epic IMPLANTACAO, ex_epic DESENVOLVIMENTO, ex_epic IMPLANTACAO])) = Some Off"
proof -
  have k: "implantacao_kpi (ex_frame {Type, TipoSolucao} [ex_epic IMPLANTACAO, ex_epic DESENVOLVIMENTO,
      ex_epic IMPLANTACAO, ex_epic DESENVOLVIMENTO, ex_epic IMPLANTACAO]) = implantacao_result 3 2"
    by (simp add: implantacao_kpi_def ex_frame_def ex_epic_def tipo_norm_labels eval_nat_numeral)
  have v: "valor (implantacao_result 3 2) = 60" by (simp add: implantacao_result_fields)
  have n: "implantacao_result 3 2 \<noteq> no_data" by simp
  show ?thesis
    using implantacao_tiers [of "ex_frame {Type, TipoSolucao} [ex_epic IMPLANTACAO, ex_epic DESENVOLVIMENTO,
      ex_epic IMPLANTACAO, ex_epic DESENVOLVIMENTO, ex_epic IMPLANTACAO]"] k v n by simp
qed

text \<open>C9: the tiers of \<open>cronograma\<close>: \<open>normal\<close> from 90 on, \<open>off\<close> from 70
  up to 90 excluded, \<open>inverse\<close> below 70.\<close>

theorem cronograma_tiers:
  assumes "cronograma_kpi f = Inr k" "k \<noteq> no_data"
  shows "(cor k = Some Normal \<longleftrightarrow> 90 \<le> valor k) \<and>
         (cor k = Some Off \<longleftrightarrow> 70 \<le> valor k \<and> valor k < 90) \<and>
         (cor k = Some Inverse \<longleftrightarrow> valor k < 70)"
proof -
  obtain a b where "k = cronograma_result a b"
    using cronograma_kpi_Inr [OF assms(1)] assms(2) by blast
  then show ?thesis
    by (simp only: cronograma_result_fields) (simp add: classify_cronograma_def)
qed

theorem cronograma_tiers_witness:
  "cronograma_kpi (ex_frame {ClosedDate, SprintNum, SprintEndTol} [ex_closed 5 5]) = Inr (cronograma_result 1 1) \<and>
   cor (cronograma_result 1 1) = Some Normal \<and> valor (cronograma_result 1 1) = 100"
  using cronograma_tiers [OF cronograma_one_on_time] by (simp add: cronograma_one_on_time cronograma_result_fields)

text \<open>C10: the tiers of \<open>desvio\<close>: \<open>normal\<close> up to 10, \<open>off\<close> above 10 up to
  30, \<open>inverse\<close> above 30.\<close>

theorem desvio_tiers:
  assumes "desvio_kpi f = Inr k" "k \<noteq> no_data"
  shows "(cor k = Some Normal \<longleftrightarrow> valor k \<le> 10) \<and>
         (cor k = Some Off \<longleftrightarrow> 10 < valor k \<and> valor k \<le> 30) \<and>
         (cor k = Some Inverse \<longleftrightarrow> 30 < valor k)"
proof -
  obtain a b where "k = desvio_result a b"
    using desvio_kpi_Inr [OF assms(1)] assms(2) by blast
  then show ?thesis
    by (simp only: desvio_result_fields) (simp add: classify_desvio_def)
qed

theorem desvio_tiers_witness:
  "desvio_kpi (ex_frame {SprintNum, CreatedDate, SprintStart} [ex_created 1 5]) = Inr (desvio_result 0 1) \<and>
   cor (desvio_result 0 1) = Some Normal \<and> valor (desvio_result 0 1) = 0"
  using desvio_tiers [OF desvio_one_planned] by (simp add: desvio_one_planned desvio_result_fields)

text \<open>C8: bounds of the values: the mean analysis time is not negative, the
  deployment rate and the on-time rate lie between 0 and 100, and the drift
  rate is not negative (it has no upper bound).\<close>

theorem kpi_values_bounded:
  assumes "calcular_kpis f = Inr res"
  shows "0 \<le> valor (tempo_medio res) \<and>
         0 \<le> valor (implantacao res) \<and> valor (implantacao res) \<le> 100 \<and>
         0 \<le> valor (cronograma res) \<and> valor (cronograma res) \<le> 100 \<and>
         0 \<le> valor (desvio res)"
proof -
  obtain t c d where t: "tempo_medio_kpi f = Inr t" and c: "cronograma_kpi f = Inr c"
    and d: "desvio_kpi f = Inr d"
    and res: "res = \<lparr>tempo_medio = t, implantacao = implantacao_kpi f, cronograma = c, desvio = d\<rparr>"
    using assms by (auto simp: calcular_kpis_Inr)
  have "0 \<le> valor t"
    using t kpi_tempo_nonneg by (auto simp: tempo_medio_kpi_def tempo_result_def)
  moreover have "0 \<le> valor (implantacao_kpi f) \<and> valor (implantacao_kpi f) \<le> 100"
    using implantacao_kpi_cases [of f]
    by (auto simp: implantacao_result_fields no_data_def divide_le_eq)
  moreover have "0 \<le> valor c \<and> valor c \<le> 100"
    using cronograma_kpi_Inr [OF c] by (auto simp: cronograma_result_fields no_data_def divide_le_eq)
  moreover have "0 \<le> valor d"
    using desvio_kpi_Inr [OF d] by (auto simp: desvio_result_fields no_data_def)
  ultimately show ?thesis using res by simp
qed

theorem kpi_values_bounded_witness:
  "calcular_kpis (ex_frame {ClosedDate, SprintNum, SprintEndTol, CreatedDate, SprintStart} [ex_closed 5 5]) =
     Inr \<lparr>tempo_medio = tempo_result 0, implantacao = no_data, cronograma = cronograma_result 1 1,
          desvio = no_data\<rparr> \<and>
   valor (cronograma_result 1 1) \<le> 100"
proof -
  have r: "calcular_kpis (ex_frame {ClosedDate, SprintNum, SprintEndTol, CreatedDate, SprintStart} [ex_closed 5 5]) =
     Inr \<lparr>tempo_medio = tempo_result 0, implantacao = no_data, cronograma = cronograma_result 1 1,
          desvio = no_data\<rparr>"
    by (simp add: calcular_kpis_def tempo_medio_kpi_def kpi_tempo_def implantacao_kpi_def
        cronograma_kpi_def desvio_kpi_def dropna_def ex_frame_def ex_closed_def label_row_def atrasado_def)
  show ?thesis using kpi_values_bounded [OF r] r by simp
qed

text \<open>C11: the counts in the message of \<open>cronograma\<close>, read back from the message
  \<open>"... (a/b)"\<close>, are the numerator and the denominator of its value.\<close>

theorem cronograma_msg_roundtrip:
  assumes "cronograma_kpi f = Inr k" "k \<noteq> no_data"
  shows "\<exists>a b. map_option read_ratio (msg k) = Some (Some (a, b)) \<and> a \<le> b \<and> 0 < b \<and>
           valor k = real a / real b * 100"
proof -
  obtain a b where "a \<le> b" "0 < b" "k = cronograma_result a b"
    using cronograma_kpi_Inr [OF assms(1)] assms(2) by blast
  then show ?thesis by (auto simp: cronograma_result_fields read_ratio_msg)
qed

theorem cronograma_msg_roundtrip_witness:
  "map_option read_ratio (msg (cronograma_result 1 1)) = Some (Some (1, 1)) \<and>
   valor (cronograma_result 1 1) = 100"
  using cronograma_msg_roundtrip [OF cronograma_one_on_time]
  by (simp add: cronograma_result_fields read_ratio_msg)

text \<open>C12: the counts in the message of \<open>desvio\<close> are the unplanned and the
  planned counts its value is computed from.\<close>

theorem desvio_msg_roundtrip:
  assumes "desvio_kpi f = Inr k" "k \<noteq> no_data"
  shows "\<exists>a b. map_option read_ratio (msg k) = Some (Some (a, b)) \<and>
           valor k = (if 0 < b then real a / real b * 100 else 0)"
proof -
  obtain a b where "k = desvio_result a b"
    using desvio_kpi_Inr [OF assms(1)] assms(2) by blast
  then show ?thesis by (auto simp: desvio_result_fields read_ratio_msg)
qed

theorem desvio_msg_roundtrip_witness:
  "map_option read_ratio (msg (desvio_result 0 1)) = Some (Some (0, 1)) \<and> valor (desvio_result 0 1) = 0"
  using desvio_msg_roundtrip [OF desvio_one_planned]
  by (simp add: desvio_result_fields read_ratio_msg)

text \<open>C13: the counts in the message \<open>"a Impl. | b Dev."\<close> of \<open>implantacao\<close>
  are the deployment and development counts its value is computed from.\<close>

theorem implantacao_msg_roundtrip:
  assumes "implantacao_kpi f \<noteq> no_data"
  shows "\<exists>a b. map_option read_impl (msg (implantacao_kpi f)) = Some (Some (a, b)) \<and>
           valor (implantacao_kpi f) = (if 0 < a + b then real a / real (a + b) * 100 else 0)"
proof -
  obtain a b where "implantacao_kpi f = implantacao_result a b"
    using implantacao_kpi_cases [of f] assms by blast
  then show ?thesis by (auto simp: implantacao_result_fields read_impl_msg)
qed

theorem implantacao_msg_roundtrip_witness:
  "implantacao_kpi (ex_frame {Type, TipoSolucao} [ex_epic IMPLANTACAO, ex_epic DESENVOLVIMENTO]) =
     implantacao_result 1 1 \<and>
   map_option read_impl (msg (implantacao_result 1 1)) = Some (Some (1, 1)) \<and>
   valor (implantacao_result 1 1) = 50"
proof -
  have k: "implantacao_kpi (ex_frame {Type, TipoSolucao} [ex_epic IMPLANTACAO, ex_epic DESENVOLVIMENTO]) =
     implantacao_result 1 1"
    by (simp add: implantacao_kpi_def ex_frame_def ex_epic_def tipo_norm_labels)
  show ?thesis
    using implantacao_msg_roundtrip [of "ex_frame {Type, TipoSolucao} [ex_epic IMPLANTACAO, ex_epic DESENVOLVIMENTO]"] k
    by (simp add: implantacao_result_fields read_impl_msg)
qed

text \<open>C16 (scenario 2 of the spec): on a frame without rows, \<open>calcular_kpis\<close>
  raises \<open>KeyError\<close> when a column that \<open>dropna\<close> names is absent; otherwise
  \<open>implantacao\<close>, \<open>cronograma\<close> and \<open>desvio\<close> are the \<open>Sem dados\<close> result and
  \<open>tempo_medio\<close> is 0 days, without a \<open>Sem dados\<close> label.\<close>

theorem calcular_kpis_no_rows:
  "calcular_kpis (f\<lparr>rows := []\<rparr>) =
     (let m1 = filter (\<lambda>c. c \<notin> columns f) [ClosedDate, SprintNum];
          m2 = filter (\<lambda>c. c \<notin> columns f) [SprintNum, CreatedDate, SprintStart]
      in if m1 \<noteq> [] then Inl (KeyError m1)
         else if m2 \<noteq> [] then Inl (KeyError m2)
         else Inr \<lparr>tempo_medio = tempo_result 0, implantacao = no_data, cronograma = no_data,
                   desvio = no_data\<rparr>)"
  by (simp add: calcular_kpis_def tempo_medio_kpi_def kpi_tempo_def implantacao_kpi_def
      cronograma_kpi_def desvio_kpi_def dropna_def Let_def)

text \<open>C2: after a successful preparation of a frame that does not already
  carry the sprint columns, \<open>calcular_kpis\<close> raises exactly when a column is
  missing: \<open>KeyError\<close> naming \<open>closedDate\<close> and \<open>sprint_num\<close> (those absent)
  when the closed-date or the iteration column is absent, else \<open>KeyError\<close>
  naming \<open>createdDate\<close> when that column is absent. The spec's promise that
  the calculators never raise does not hold.\<close>

theorem calcular_kpis_key_errors:
  assumes g: "preparar_dataframe f = Inr g" and fresh: "columns f \<inter> SPRINT_COLUMNS = {}"
  shows "calcular_kpis g = Inl e \<longleftrightarrow>
    (if ClosedDate \<in> columns f \<and> Iteration \<in> columns f
     then CreatedDate \<notin> columns f \<and> e = KeyError [CreatedDate]
     else e = KeyError (filter (\<lambda>c. c \<notin> columns g) [ClosedDate, SprintNum]))"
proof -
  have p: "prepared g" using g by (rule preparar_prepared)
  have cg: "columns g = columns f \<union> (if Iteration \<in> columns f then SPRINT_COLUMNS else {})"
    using preparar_preserves [OF g] by blast
  obtain v where v: "kpi_tempo g = Inr v" using kpi_tempo_total [OF p] by blast
  have calc: "calcular_kpis g = sbind (cronograma_kpi g) (\<lambda>c. sbind (desvio_kpi g) (\<lambda>d. Inr
          \<lparr>tempo_medio = tempo_result v, implantacao = implantacao_kpi g, cronograma = c, desvio = d\<rparr>))"
    by (simp add: calcular_kpis_def tempo_medio_kpi_def v)
  show ?thesis
  proof (cases "ClosedDate \<in> columns f \<and> Iteration \<in> columns f")
    case True
    then have sc: "ClosedDate \<in> columns g" "SprintNum \<in> columns g" "SprintEndTol \<in> columns g"
      "SprintStart \<in> columns g" "CreatedDate \<in> columns g \<longleftrightarrow> CreatedDate \<in> columns f"
      by (auto simp: cg SPRINT_COLUMNS_def)
    obtain c where cr: "cronograma_kpi g = Inr c" using cronograma_kpi_total [OF p sc(1-3)] by blast
    show ?thesis
    proof (cases "CreatedDate \<in> columns f")
      case True
      then obtain d where "desvio_kpi g = Inr d" using desvio_kpi_total [OF p sc(2)] sc(4,5) by blast
      with calc cr True \<open>ClosedDate \<in> columns f \<and> Iteration \<in> columns f\<close> show ?thesis by simp
    next
      case False
      then have "desvio_kpi g = Inl (KeyError [CreatedDate])"
        using sc by (simp add: desvio_kpi_def dropna_def)
      with calc cr False \<open>ClosedDate \<in> columns f \<and> Iteration \<in> columns f\<close> show ?thesis by auto
    qed
  next
    case False
    have "filter (\<lambda>c. c \<notin> columns g) [ClosedDate, SprintNum] \<noteq> []"
      using False fresh by (auto simp: cg SPRINT_COLUMNS_def)
    then have "cronograma_kpi g = Inl (KeyError (filter (\<lambda>c. c \<notin> columns g) [ClosedDate, SprintNum]))"
      by (simp add: cronograma_kpi_def dropna_def Let_def del: filter.simps)
    with calc False show ?thesis by auto
  qed
qed

theorem calcular_kpis_key_errors_witness:
  "\<exists>g. preparar_dataframe (ex_frame {Iteration, CreatedDate} [label_row (py ''Sprint 34'')]) = Inr g \<and>
       calcular_kpis g = Inl (KeyError [ClosedDate])"
proof -
  obtain g where g: "preparar_dataframe (ex_frame {Iteration, CreatedDate} [label_row (py ''Sprint 34'')]) = Inr g"
    using label_frame_prepares by blast
  have cg: "columns g = {Iteration, CreatedDate} \<union> SPRINT_COLUMNS"
    using preparar_preserves [OF g] by (simp add: ex_frame_def)
  have "calcular_kpis g = Inl (KeyError [ClosedDate])"
    using calcular_kpis_key_errors [OF g, of "KeyError [ClosedDate]"] cg
    by (simp add: ex_frame_def SPRINT_COLUMNS_def)
  with g show ?thesis by blast
qed

text \<open>C1: on a prepared frame with the closed-date, created-date and
  iteration columns, \<open>calcular_kpis\<close> raises nothing and computes the
  record-level reference: for each KPI one predicate selects the records
  and a count, sum or mean over the multiset of selected records gives the
  value, as the spec's design note describes.\<close>

theorem calcular_kpis_refinement:
  assumes "prepared f" "ClosedDate \<in> columns f" "CreatedDate \<in> columns f" "Iteration \<in> columns f"
  shows "calcular_kpis f = Inr (kpis_ref (columns f) (mset (rows f)))"
  using assms by (rule calcular_kpis_ref)

theorem calcular_kpis_refinement_witness:
  "\<exists>g. preparar_dataframe (ex_frame {Iteration, ClosedDate, CreatedDate} [label_row (py ''Sprint 34'')]) = Inr g \<and>
       calcular_kpis g = Inr (kpis_ref (columns g) (mset (rows g)))"
proof -
  obtain g where g: "preparar_dataframe (ex_frame {Iteration, ClosedDate, CreatedDate} [label_row (py ''Sprint 34'')]) = Inr g"
    using label_frame_prepares by blast
  have cg: "columns g = {Iteration, ClosedDate, CreatedDate} \<union> SPRINT_COLUMNS"
    using preparar_preserves [OF g] by (simp add: ex_frame_def)
  have "calcular_kpis g = Inr (kpis_ref (columns g) (mset (rows g)))"
    by (rule calcular_kpis_refinement) (simp_all add: preparar_prepared [OF g] cg)
  with g show ?thesis by blast
qed

text \<open>C15: \<open>implantacao\<close> ignores the case of the solution types and the
  white space around them: lowering every solution type and padding it with
  white space on both sides leaves the result unchanged (line 71 normalises
  with \<open>strip()\<close> and \<open>title()\<close>; spec scenario 1 is an instance).\<close>

theorem implantacao_ignores_case_and_padding:
  assumes "list_all py_isspace a" "list_all py_isspace b"
  shows "implantacao_kpi (f\<lparr>rows := map (\<lambda>r. r\<lparr>tipoSolucao := map_option (\<lambda>t. a @ map to_lower t @ b) (tipoSolucao r)\<rparr>)
           (rows f)\<rparr>) = implantacao_kpi f"
  using tipo_norm_pad [OF assms]
  by (simp add: implantacao_kpi_def Let_def filter_map comp_def)

theorem implantacao_ignores_case_and_padding_witness:
  "implantacao_kpi (ex_frame {Type, TipoSolucao} [ex_epic (map to_lower IMPLANTACAO @ [32])]) =
     implantacao_result 1 0 \<and> valor (implantacao_result 1 0) = 100 \<and>
   cor (implantacao_result 1 0) = Some Normal"
proof -
  have "implantacao_kpi ((ex_frame {Type, TipoSolucao} [ex_epic IMPLANTACAO])\<lparr>rows :=
          map (\<lambda>r. r\<lparr>tipoSolucao := map_option (\<lambda>t. [] @ map to_lower t @ [32]) (tipoSolucao r)\<rparr>)
            (rows (ex_frame {Type, TipoSolucao} [ex_epic IMPLANTACAO]))\<rparr>) =
        implantacao_kpi (ex_frame {Type, TipoSolucao} [ex_epic IMPLANTACAO])"
    by (rule implantacao_ignores_case_and_padding) (simp_all add: py_isspace_def WHITESPACE_def)
  moreover have "implantacao_kpi (ex_frame {Type, TipoSolucao} [ex_epic IMPLANTACAO]) = implantacao_result 1 0"
    by (simp add: implantacao_kpi_def ex_frame_def ex_epic_def tipo_norm_labels)
  ultimately show ?thesis
    by (simp add: ex_frame_def ex_epic_def implantacao_result_fields classify_implantacao_def)
qed

end
