(* ===== verification/Spec2Isabelle.thy ===== *)
theory Spec2Isabelle
  imports Kpis
begin

text \<open>
  Verification library of the tactical KPI engine \<open>src/frontend/kpi_engine.py\<close>.

  \<^bold>\<open>The program.\<close> Three parts run strictly one after the other on a pandas
  DataFrame of work items:
  \<^item> the sprint calendar resolver (\<open>SPRINT_CALENDAR\<close>, \<open>get_limit_date\<close>,
    \<open>get_start_date\<close>, lines 9--28);
  \<^item> the dataset preparation \<open>preparar_dataframe\<close> (lines 30--47): date
    normalisation, the sprint number extracted from the iteration label, and
    per-row sprint boundaries computed by the resolver;
  \<^item> the four KPI calculators of \<open>calcular_kpis\<close> (lines 49--135):
    \<open>tempo_medio\<close>, \<open>implantacao\<close>, \<open>cronograma\<close>, \<open>desvio\<close>.

  \<^bold>\<open>Theories.\<close>
  \<^item> \<open>Prelude\<close>: the model's types (Python text as lists of code points,
    dates as \<open>date.toordinal\<close> ordinals, timestamps as nanoseconds since the
    epoch), the datatype \<open>column\<close> of the DataFrame columns the code touches
    (it also stands for the \<open>CAMPO_*\<close> labels), the Python exceptions that
    can escape as the left side of a sum type, \<open>sbind\<close> and \<open>smap\<close>
    (\<open>Series.apply\<close> of a raising function: the first exception escapes), and
    the list, sum and multiset lemmas the proofs share.
  \<^item> \<open>PyStr\<close>: \<open>str.strip\<close>, \<open>str.title\<close>, \<open>str(int)\<close> and the regular
    expression \<open>Sprint (\d+)\<close> as \<open>re.search\<close> applies it. Properties: an
    extracted number comes from the literal \<open>Sprint \<close> and a maximal digit run
    at the leftmost such position, and a label \<open>Sprint <n>\<close> extracts to \<open>n\<close>.
    Checks of the string model against CPython's documented behaviour (strip
    removes exactly the white-space ends, title ignores case and is idempotent,
    lower-casing commutes with strip, \<open>str(n)\<close> reads back as \<open>n\<close>) are kept
    as lemmas, not as properties of the program.
  \<^item> \<open>Calendar\<close>: CPython's \<open>_ymd2ord\<close>, \<open>strptime\<close> on the table's
    strings, the \<open>timedelta\<close>/\<open>datetime\<close> range checks (\<open>OverflowError\<close>), and
    the two resolver functions. Properties: the end date of every sprint number
    in closed form with the source's numbers (table and fallback), exactly which
    sprint numbers overflow, start = previous end + 1 day, the length of every
    sprint window, monotonicity of end dates.
  \<^item> \<open>Frame\<close>: the DataFrame as a record \<open>frame\<close> (its column set, the dtype of
    the iteration column, its rows as records \<open>row\<close> of optional cells, None
    being NaN/NaT) and \<open>preparar_dataframe\<close> written column by column as the
    code does it, and a record-by-record form of it used by the proofs.
    Properties: it establishes the invariant \<open>prepared\<close>, it is idempotent, it
    raises only \<open>AttributeError\<close> or \<open>OverflowError\<close>, and it keeps the rows.
  \<^item> \<open>Kpis\<close>: the four calculators and \<open>calcular_kpis\<close>, each with the
    source's guards (\<open>dropna(subset=...)\<close> raising \<open>KeyError\<close>, comparisons and
    subtraction of non-timestamp cells raising \<open>TypeError\<close>), the result
    dictionaries as the record \<open>kpi\<close>, and a record-level reference
    \<open>kpis_ref\<close> over the multiset of rows (the spec's design note: one
    predicate per KPI and a count, sum or mean). Lemmas: refinement of the
    reference on prepared frames, the exact \<open>KeyError\<close> cases, symmetry of
    \<open>tempo_medio\<close>, the inclusive tolerance, the classification tiers and
    their boundaries, bounds of the values, counts read back from the
    messages, case and white-space insensitivity of \<open>implantacao\<close>, the
    \<open>desvio\<close> result when nothing was planned, and frames without rows.
  \<^item> this theory: properties of the whole engine, preparation followed by
    the calculators: the exceptions that can escape, and the late test of
    \<open>cronograma\<close> against the resolved sprint end plus one day.

  \<^bold>\<open>Bounds and choices.\<close> Sprint numbers are unbounded \<open>int\<close>s as Python's
  are; the resolver's \<open>OverflowError\<close> range (\<open>-35185 \<le> n \<le> 138721\<close>) is
  derived, not assumed. Timestamps are unbounded integers of nanoseconds:
  \<open>pd.to_datetime\<close>'s range check is modelled (values outside
  \<open>Timestamp.min..Timestamp.max\<close> become NaT), but pandas' storage of the
  resolver's \<open>datetime\<close> results in a \<open>datetime64[ns]\<close> column is not range
  checked: for sprints whose end lies before 1677 or after 2262 the model keeps
  the exact instant. KPI values
  are the exact real numbers the float expressions denote: float rounding is
  not modelled. No loop needs fuel: every recursion is structural.

  \<^bold>\<open>Not modelled.\<close> Parsing of arbitrary date strings by \<open>pd.to_datetime\<close>
  is abstracted to its result per cell (naive, with a UTC offset, or
  unparseable); the dtype of a column is modelled only for the iteration
  column (text or not). The Unicode case tables of \<open>str.title\<close> are restricted
  to Latin-1 and the three code points its mappings reach. \<open>astype(str)\<close> of a
  missing solution type is modelled as \<open>'nan'\<close> (pandas gives \<open>'None'\<close> for a
  Python \<open>None\<close>); neither is a counted label, so no count depends on it.
  Whether \<open>.str\<close> accepts the iteration column is a flag of the frame
  (\<open>iteration_dtype\<close>), not derived from its cells: an object column holding
  only non-strings, which pandas also rejects with \<open>AttributeError\<close>, is
  represented as text with missing cells. The derived columns \<open>sprint_num\<close>,
  \<open>sprint_end\<close>, \<open>sprint_start\<close> and \<open>sprint_end_tol\<close> are typed as numbers
  and timestamps also in an input frame, so a raw frame carrying them as text
  cannot be represented; the properties after preparation that depend on it
  assume the raw frame has none of them, as the spec's raw record does not.
  \<open>preparar_dataframe\<close> mutates the caller's DataFrame in place and returns
  it; the model returns the new frame and does not model the aliasing.
  Nothing else of the file is left out.
\<close>



lemma prepared_sprint_consistent:
  "prepared g \<Longrightarrow> Iteration \<in> columns g \<Longrightarrow> r \<in> set (rows g) \<Longrightarrow> sprint_consistent r"
  by (simp add: prepared_def row_prepared_def)

lemma one_late_row:
  "\<exists>r. preparar_dataframe (ex_frame {Iteration, ClosedDate}
         [label_row (py ''Sprint 34'')\<lparr>closedDate := Some (DNaive (ordinal_ns (ymd2ord 2025 12 14)))\<rparr>]) =
       Inr \<lparr>columns = {Iteration, ClosedDate} \<union> SPRINT_COLUMNS, iteration_dtype = ObjectDtype, rows = [r]\<rparr> \<and>
     closedDate r = Some (DNaive (ordinal_ns (ymd2ord 2025 12 14))) \<and> sprint_num r = Some 34"
  by (simp add: preparar_rowwise prepare_row_def convert_row_eq label_row_def sprint_row_def
      sprint_num_of_def SPRINT_TOKEN_def sprint_match_def is_digit_def read_nat_def
      get_limit_date_tabled get_start_date_eq set_bounds_def date_eval ordinal_ns_def NS_PER_DAY_def
      ex_frame_def cols_data_def convert_step_def in_ts_bounds_def TS_MIN_def TS_MAX_def EPOCH_ORDINAL_def)

text \<open>C14: after preparation, the late test of \<open>cronograma\<close> compares a
  delivered item's closing instant with the end of its sprint, as
  \<open>get_limit_date\<close> resolves it from the label, plus exactly one day: with
  the end \<open>e\<close> as an ordinal, the item is late exactly when it was closed
  after \<open>(e - 719163) * 86400 * 10^9 + 86400 * 10^9\<close> nanoseconds since the
  epoch (spec scenario 4 is an instance).\<close>

theorem prepared_late_iff:
  assumes "preparar_dataframe f = Inr g" "Iteration \<in> columns f" "r \<in> set (rows g)"
    and "closedDate r = Some (DNaive c)" "sprint_num r = Some n"
    and "get_limit_date (Some n) = Inr (Some e)"
  shows "atrasado r = Inr ((e - 719163) * 86400000000000 + 86400000000000 < c)"
proof -
  have "prepared g" using assms(1) by (rule preparar_prepared)
  moreover have "Iteration \<in> columns g" using preparar_keeps_rows_iteration [OF assms(1)] assms(2) by blast
  ultimately have "sprint_consistent r" using assms(3) by (rule prepared_sprint_consistent)
  then have "sprint_end_tol r = Some (ordinal_ns e + NS_PER_DAY)"
    using assms(5,6) by (auto simp: sprint_consistent_def split: sum.splits option.splits)
  then show ?thesis
    using assms(4) by (simp add: atrasado_def ordinal_ns_def NS_PER_DAY_def EPOCH_ORDINAL_def)
qed

theorem prepared_late_iff_witness:
  "\<exists>g r. preparar_dataframe (ex_frame {Iteration, ClosedDate}
         [label_row (py ''Sprint 34'')\<lparr>closedDate := Some (DNaive (ordinal_ns (ymd2ord 2025 12 14)))\<rparr>]) = Inr g \<and>
     r \<in> set (rows g) \<and> atrasado r = Inr True"
proof -
  obtain r where g: "preparar_dataframe (ex_frame {Iteration, ClosedDate}
         [label_row (py ''Sprint 34'')\<lparr>closedDate := Some (DNaive (ordinal_ns (ymd2ord 2025 12 14)))\<rparr>]) =
       Inr \<lparr>columns = {Iteration, ClosedDate} \<union> SPRINT_COLUMNS, iteration_dtype = ObjectDtype, rows = [r]\<rparr>"
    and c: "closedDate r = Some (DNaive (ordinal_ns (ymd2ord 2025 12 14)))" and n: "sprint_num r = Some 34"
    using one_late_row by blast
  have "atrasado r = Inr ((739597 - 719163) * 86400000000000 + 86400000000000 < ordinal_ns (ymd2ord 2025 12 14))"
    using prepared_late_iff [OF g _ _ c n get_limit_date_tabled(7)] by (simp add: ex_frame_def)
  also have "\<dots> = Inr True" by (simp add: ordinal_ns_def NS_PER_DAY_def EPOCH_ORDINAL_def date_eval)
  finally show ?thesis using g by auto
qed

end
